theory Spec2Isabelle
  imports Main
begin

section \<open>Values of the host language\<close>

text \<open>
  The constructs are TypeScript classes. Numbers of the input (ports, counts, seconds,
  priorities, percentages) are modelled as \<open>int\<close>: the integral numbers a caller writes.
  String-keyed objects of strings (\<open>{ [key: string]: string }\<close>) are maps, an optional
  field \<open>f?: T\<close> is a \<open>T option\<close>.
\<close>

type_synonym dict = "string \<rightharpoonup> string"

text \<open>
  \<open>a || b\<close> yields \<open>b\<close> when \<open>a\<close> is falsy. For a number that is \<open>undefined\<close> and \<open>0\<close>,
  for a string \<open>undefined\<close> and the empty string, for an object \<open>undefined\<close> only.
\<close>

definition orNumber :: "int option \<Rightarrow> int \<Rightarrow> int" where
  "orNumber a b = (case a of None \<Rightarrow> b | Some n \<Rightarrow> if n = 0 then b else n)"

definition orString :: "string option \<Rightarrow> string \<Rightarrow> string" where
  "orString a b = (case a of None \<Rightarrow> b | Some s \<Rightarrow> if s = [] then b else s)"

definition orObject :: "'a option \<Rightarrow> 'a \<Rightarrow> 'a" where
  "orObject a b = (case a of None \<Rightarrow> b | Some obj \<Rightarrow> obj)"

text \<open>\<open>if (x) { ... x ... }\<close> on an optional number: the body runs when \<open>x\<close> is truthy.\<close>

definition ifNumber :: "int option \<Rightarrow> (int \<Rightarrow> 'a list) \<Rightarrow> 'a list" where
  "ifNumber a body = (case a of None \<Rightarrow> [] | Some n \<Rightarrow> if n = 0 then [] else body n)"

text \<open>A number inside a template literal: its decimal representation.\<close>

definition digitChar :: "nat \<Rightarrow> char" where
  "digitChar d = ''0123456789'' ! d"

fun digits :: "nat \<Rightarrow> string" where
  "digits n = (if n < 10 then [digitChar n] else digits (n div 10) @ [digitChar (n mod 10)])"

declare digits.simps [simp del]

definition showNumber :: "int \<Rightarrow> string" where
  "showNumber i = (if i < 0 then CHR ''-'' # digits (nat (- i)) else digits (nat i))"

section \<open>Input properties\<close>

text \<open>
  \<open>RemovalPolicy\<close> and \<open>RetentionDays\<close> are enumerations of aws-cdk-lib; the constructs use
  the members \<open>DESTROY\<close> and \<open>TWO_WEEKS\<close> by name and pass every other member through.
\<close>

datatype RemovalPolicy = DESTROY | RETAIN | SNAPSHOT | RETAIN_ON_UPDATE_OR_DELETE

datatype RetentionDays =
    ONE_DAY | THREE_DAYS | FIVE_DAYS | ONE_WEEK | TWO_WEEKS | ONE_MONTH | TWO_MONTHS
  | THREE_MONTHS | FOUR_MONTHS | FIVE_MONTHS | SIX_MONTHS | ONE_YEAR | THIRTEEN_MONTHS
  | EIGHTEEN_MONTHS | TWO_YEARS | THREE_YEARS | FIVE_YEARS | SIX_YEARS | SEVEN_YEARS
  | EIGHT_YEARS | NINE_YEARS | TEN_YEARS | INFINITE

text \<open>
  The network handle. The interface type is \<open>ec2.IVpc\<close>, the schema asks for an instance of
  the class \<open>ec2.Vpc\<close>; the constructs read the CIDR block and select subnets by type.
\<close>

record vpc =
  instanceofVpc :: bool
  vpcCidrBlock :: string

record imageConfig =
  imagePath :: string
  imageName :: "string option"
  imageLabels :: "dict option"

record healthCheckConfig =
  path :: string
  intervalSeconds :: "int option"
  timeoutSeconds :: "int option"
  retries :: "int option"
  startPeriodSeconds :: "int option"

record fargateConfig =
  cpu :: "int option"
  memoryLimitMiB :: "int option"

record logGroupConfig =
  logGroupName :: string
  removalPolicy :: RemovalPolicy
  retention :: RetentionDays

record autoScalingConfig =
  minCapacity :: int
  maxCapacity :: int
  targetCpuUtilization :: "int option"
  targetMemoryUtilization :: "int option"

text \<open>
  The two constructs declare their service configuration separately, with the same eight
  fields first. \<open>ECSServiceConfig\<close> (multi-service) adds the listener priority, the
  health-check block and the autoscaling block; the \<open>service\<close> of the private construct
  adds a bare health-check path.
\<close>

record serviceFields =
  name :: string
  port :: int
  desiredCount :: int
  version :: string
  envVariables :: dict
  imageConfig :: imageConfig
  fargateConfig :: "fargateConfig option"
  logGroupConfig :: "logGroupConfig option"

record ECSServiceConfig = serviceFields +
  priority :: int
  healthCheckConfig :: healthCheckConfig
  autoScalingConfig :: "autoScalingConfig option"

record privateService = serviceFields +
  healthCheckPath :: string

record constructProps =
  appName :: string
  tagEnv :: string
  vpc :: vpc

record MultiServiceECSFargateLoadBalancedConstructProps = constructProps +
  hostedZoneId :: string
  domainName :: string
  apiSubdomainName :: string
  ecsServices :: "ECSServiceConfig list"

record SingleServicePrivateECSFargateConstructProps = constructProps +
  service :: privateService

section \<open>Schema validation\<close>

text \<open>
  A zod schema collects issues, each with the path of the offending value, and \<open>parse\<close>
  throws when there is at least one. All checks of a value run, so one value can raise
  several issues.
\<close>

datatype seg = Key string | Idx nat

datatype code = too_small | too_big | invalid_string | invalid_union | custom

type_synonym issue = "seg list \<times> code"

definition stringMin :: "nat \<Rightarrow> seg list \<Rightarrow> string \<Rightarrow> issue list" where
  "stringMin n p s = (if length s < n then [(p, too_small)] else [])"

definition stringStartsWith :: "string \<Rightarrow> seg list \<Rightarrow> string \<Rightarrow> issue list" where
  "stringStartsWith pre p s = (if take (length pre) s = pre then [] else [(p, invalid_string)])"

definition numberMin :: "int \<Rightarrow> seg list \<Rightarrow> int \<Rightarrow> issue list" where
  "numberMin n p x = (if x < n then [(p, too_small)] else [])"

definition numberMax :: "int \<Rightarrow> seg list \<Rightarrow> int \<Rightarrow> issue list" where
  "numberMax n p x = (if n < x then [(p, too_big)] else [])"

definition literals :: "int list \<Rightarrow> seg list \<Rightarrow> int \<Rightarrow> issue list" where
  "literals vs p x = (if x \<in> set vs then [] else [(p, invalid_union)])"

definition optional :: "(seg list \<Rightarrow> 'a \<Rightarrow> issue list) \<Rightarrow> seg list \<Rightarrow> 'a option \<Rightarrow> issue list" where
  "optional schema p v = (case v of None \<Rightarrow> [] | Some x \<Rightarrow> schema p x)"

definition ECSFargateConfigSchema :: "seg list \<Rightarrow> fargateConfig \<Rightarrow> issue list" where
  "ECSFargateConfigSchema p f =
     optional (literals [256, 512, 1024, 2048, 4096]) (p @ [Key ''cpu'']) (cpu f)
   @ optional (literals [512, 1024, 2048, 3072, 4096, 5120, 6144, 7168, 8192, 16384, 30720])
       (p @ [Key ''memoryLimitMiB'']) (memoryLimitMiB f)"

definition ECSImageObjectSchema :: "seg list \<Rightarrow> imageConfig \<Rightarrow> issue list" where
  "ECSImageObjectSchema p i = stringMin 1 (p @ [Key ''path'']) (imagePath i)"

definition ECSLogGroupConfigSchema :: "seg list \<Rightarrow> logGroupConfig \<Rightarrow> issue list" where
  "ECSLogGroupConfigSchema p l = stringMin 1 (p @ [Key ''logGroupName'']) (logGroupName l)"

definition healthCheckConfigSchema :: "seg list \<Rightarrow> healthCheckConfig \<Rightarrow> issue list" where
  "healthCheckConfigSchema p h =
     stringMin 1 (p @ [Key ''path'']) (path h)
   @ stringStartsWith ''/'' (p @ [Key ''path'']) (path h)"

definition autoScalingConfigSchema :: "seg list \<Rightarrow> autoScalingConfig \<Rightarrow> issue list" where
  "autoScalingConfigSchema p a =
     numberMin 1 (p @ [Key ''minCapacity'']) (minCapacity a)
   @ numberMin 1 (p @ [Key ''maxCapacity'']) (maxCapacity a)
   @ optional (\<lambda>q x. numberMin 1 q x @ numberMax 100 q x)
       (p @ [Key ''targetCpuUtilization'']) (targetCpuUtilization a)
   @ optional (\<lambda>q x. numberMin 1 q x @ numberMax 100 q x)
       (p @ [Key ''targetMemoryUtilization'']) (targetMemoryUtilization a)"

text \<open>The checks on the fields both service schemas share, in the order of the schema.\<close>

definition nameSchema :: "seg list \<Rightarrow> 'a serviceFields_scheme \<Rightarrow> issue list" where
  "nameSchema p s = stringMin 1 (p @ [Key ''name'']) (name s)"

definition portSchema :: "seg list \<Rightarrow> 'a serviceFields_scheme \<Rightarrow> issue list" where
  "portSchema p s =
     numberMin 1 (p @ [Key ''port'']) (port s) @ numberMax 65535 (p @ [Key ''port'']) (port s)"

definition desiredCountSchema :: "seg list \<Rightarrow> 'a serviceFields_scheme \<Rightarrow> issue list" where
  "desiredCountSchema p s = numberMin 1 (p @ [Key ''desiredCount'']) (desiredCount s)"

definition versionSchema :: "seg list \<Rightarrow> 'a serviceFields_scheme \<Rightarrow> issue list" where
  "versionSchema p s = stringMin 1 (p @ [Key ''version'']) (version s)"

definition ECSServiceConfigSchema :: "seg list \<Rightarrow> ECSServiceConfig \<Rightarrow> issue list" where
  "ECSServiceConfigSchema p s =
     nameSchema p s @ portSchema p s @ desiredCountSchema p s @ versionSchema p s
   @ ECSImageObjectSchema (p @ [Key ''image'']) (imageConfig s)
   @ healthCheckConfigSchema (p @ [Key ''healthCheckConfig'']) (healthCheckConfig s)
   @ optional ECSFargateConfigSchema (p @ [Key ''fargateConfig'']) (fargateConfig s)
   @ optional ECSLogGroupConfigSchema (p @ [Key ''logGroupConfig'']) (logGroupConfig s)
   @ optional autoScalingConfigSchema (p @ [Key ''autoScalingConfig'']) (autoScalingConfig s)"

definition ECSServicePropsSchema :: "seg list \<Rightarrow> privateService \<Rightarrow> issue list" where
  "ECSServicePropsSchema p s =
     nameSchema p s @ portSchema p s @ desiredCountSchema p s @ versionSchema p s
   @ ECSImageObjectSchema (p @ [Key ''image'']) (imageConfig s)
   @ stringMin 1 (p @ [Key ''healthCheckPath'']) (healthCheckPath s)
   @ stringStartsWith ''/'' (p @ [Key ''healthCheckPath'']) (healthCheckPath s)
   @ optional ECSFargateConfigSchema (p @ [Key ''fargateConfig'']) (fargateConfig s)
   @ optional ECSLogGroupConfigSchema (p @ [Key ''logGroupConfig'']) (logGroupConfig s)"

definition vpcSchema :: "seg list \<Rightarrow> vpc \<Rightarrow> issue list" where
  "vpcSchema p v = (if instanceofVpc v then [] else [(p, custom)])"

definition constructPropsSchema :: "'a constructProps_scheme \<Rightarrow> issue list" where
  "constructPropsSchema props =
     stringMin 3 [Key ''appName''] (appName props)
   @ stringMin 1 [Key ''tagEnv''] (tagEnv props)
   @ vpcSchema [Key ''vpc''] (vpc props)"

fun arraySchema :: "(seg list \<Rightarrow> 'a \<Rightarrow> issue list) \<Rightarrow> seg list \<Rightarrow> nat \<Rightarrow> 'a list \<Rightarrow> issue list" where
  "arraySchema schema p i [] = []"
| "arraySchema schema p i (x # xs) = schema (p @ [Idx i]) x @ arraySchema schema p (Suc i) xs"

definition MultiServiceECSFargateLoadBalancedConstructPropsSchema ::
  "MultiServiceECSFargateLoadBalancedConstructProps \<Rightarrow> issue list" where
  "MultiServiceECSFargateLoadBalancedConstructPropsSchema props =
     constructPropsSchema props
   @ stringMin 1 [Key ''hostedZoneId''] (hostedZoneId props)
   @ stringMin 1 [Key ''domainName''] (domainName props)
   @ stringMin 1 [Key ''apiSubdomainName''] (apiSubdomainName props)
   @ (if length (ecsServices props) < 1 then [([Key ''ecsServices''], too_small)] else [])
   @ arraySchema ECSServiceConfigSchema [Key ''ecsServices''] 0 (ecsServices props)"

definition SingleServicePrivateECSFargateConstructPropsSchema ::
  "SingleServicePrivateECSFargateConstructProps \<Rightarrow> issue list" where
  "SingleServicePrivateECSFargateConstructPropsSchema props =
     constructPropsSchema props @ ECSServicePropsSchema [Key ''service''] (service props)"

section \<open>Resources and the construct scope\<close>

text \<open>
  What each construct instantiates, as a descriptor with the properties the source computes
  from the input. Literals that no input determines (runtime platform, TLS policy, target
  protocol) are left out, and tags are written into the descriptor of what they tag.
\<close>

datatype subnetType = PUBLIC | PRIVATE_WITH_EGRESS

datatype peer = LoadBalancerSecurityGroup | Ipv4 string

datatype listenerAction = FixedResponse int string string | Redirect string string

datatype attribute = LoadBalancerArn | LoadBalancerSecurityGroupId

record containerHealthCheck =
  command :: "string list"
  interval :: int
  timeout :: int
  retryCount :: int
  startPeriod :: int

record containerDefinition =
  containerName :: string
  imageAsset :: "string \<times> string"
  environment :: dict
  streamPrefix :: string
  containerPort :: int
  dockerLabels :: dict
  healthCheck :: containerHealthCheck

record fargateServiceProps =
  assignPublicIp :: bool
  serviceDesiredCount :: int
  serviceName :: string
  serviceSubnets :: subnetType
  serviceTags :: "(string \<times> string) list"

record targetGroupProps =
  targetPort :: int
  targetGroupName :: string
  pathPatterns :: "string list"
  targetHealthPath :: string
  targetHealthInterval :: int
  targetHealthTimeout :: int
  healthyHttpCodes :: string
  rulePriority :: int

datatype resource =
    HostedZone string string
  | Certificate string "string list"
  | Cluster string
  | ApplicationLoadBalancer string bool subnetType "(string \<times> string) list"
  | ARecord string
  | StringParameter string attribute
  | ApplicationListener int bool listenerAction
  | FargateTaskDefinition int int string
  | LogGroup logGroupConfig
  | ContainerDefinition containerDefinition
  | SecurityGroup string bool "(peer \<times> int) list"
  | FargateService fargateServiceProps
  | ApplicationTargetGroup targetGroupProps
  | ScalableTaskCount int int
  | CpuUtilizationScaling int
  | MemoryUtilizationScaling int

text \<open>
  \<open>new C(scope, id, props)\<close> adds a child named \<open>id\<close> to \<open>scope\<close>, and the constructs
  library throws when \<open>scope\<close> already has a child of that name. A node is the path of ids
  from the construct being built (\<open>this\<close>) down to the child, with the child's descriptor.
  \<open>loadBalancer.addListener\<close>, \<open>listener.addTargets\<close>, \<open>taskDefinition.addContainer\<close>,
  \<open>service.autoScaleTaskCount\<close> and the \<open>scaleOn...\<close> methods add below the object they are
  called on; the scalable target of a service has the library's id \<open>TaskCount\<close>.

  The constructs library and aws-cdk-lib are not part of the source. Of their behaviour
  the model has the uniqueness of child ids within a scope and nothing else: checks that
  aws-cdk-lib makes on the values it is given are not modelled: \<open>addTargets\<close> refuses a
  priority below 1, \<open>Duration.seconds\<close> a negative number, \<open>autoScaleTaskCount\<close> a minimum
  above the maximum, and there are limits on the lengths of names and on CPU and memory
  pairs. A construct counts as built when the source's own validation passes and no id
  is used twice, so what is said of a built construct is said of every construct the
  library builds, and of some it refuses. The scope is that of
  the construct's own children; the construct itself is registered in its parent by
  \<open>super(scope, id)\<close> before anything else runs.
\<close>

type_synonym node = "string list \<times> resource"

type_synonym scope = "node list"

datatype error =
    InvalidInputProperties
  | ZodError "issue list"
  | DuplicateConstruct "string list"

text \<open>
  A constructor either returns or throws; in both cases the nodes it has added so far are
  in the scope. The result is that scope with the error thrown, if any.
\<close>

type_synonym outcome = "scope \<times> error option"

fun addAll :: "node list \<Rightarrow> scope \<Rightarrow> outcome" where
  "addAll [] sc = (sc, None)"
| "addAll (n # ns) sc =
     (if fst n \<in> set (map fst sc) then (sc, Some (DuplicateConstruct (fst n)))
      else addAll ns (sc @ [n]))"

section \<open>What both constructs derive from a service\<close>

text \<open>These expressions occur in both constructors, character for character.\<close>

definition clusterName :: "'a constructProps_scheme \<Rightarrow> string" where
  "clusterName props = appName props @ ''-cluster''"

definition taskDefinition :: "'a serviceFields_scheme \<Rightarrow> node" where
  "taskDefinition ecsService =
     ([name ecsService @ ''-task-definition''],
      FargateTaskDefinition
        (orNumber (case fargateConfig ecsService of None \<Rightarrow> None | Some f \<Rightarrow> memoryLimitMiB f) 1024)
        (orNumber (case fargateConfig ecsService of None \<Rightarrow> None | Some f \<Rightarrow> cpu f) 512)
        (name ecsService @ ''-task-family''))"

definition logGroup :: "'a serviceFields_scheme \<Rightarrow> node" where
  "logGroup ecsService =
     ([name ecsService @ ''-log-group''],
      LogGroup (orObject (logGroupConfig ecsService)
        \<lparr>logGroupName = name ecsService @ ''-log-group'',
         removalPolicy = DESTROY,
         retention = TWO_WEEKS\<rparr>))"

definition containerImage :: "'a serviceFields_scheme \<Rightarrow> string \<times> string" where
  "containerImage ecsService =
     (imagePath (imageConfig ecsService), orString (imageName (imageConfig ecsService)) ''Dockerfile'')"

definition environmentVariables :: "'a serviceFields_scheme \<Rightarrow> dict" where
  "environmentVariables ecsService =
     [''PORT'' \<mapsto> showNumber (port ecsService),
      ''SERVICE_NAME'' \<mapsto> name ecsService,
      ''API_VERSION'' \<mapsto> version ecsService] ++ envVariables ecsService"

definition containerLabels :: "'a constructProps_scheme \<Rightarrow> 'b serviceFields_scheme \<Rightarrow> dict" where
  "containerLabels props ecsService =
     orObject (imageLabels (imageConfig ecsService))
       [''cluster'' \<mapsto> clusterName props,
        ''service'' \<mapsto> name ecsService,
        ''version'' \<mapsto> version ecsService]"

definition healthCheckCommand :: "'a serviceFields_scheme \<Rightarrow> string \<Rightarrow> string list" where
  "healthCheckCommand ecsService probePath =
     [''CMD-SHELL'',
      ''curl -f http://localhost:'' @ showNumber (port ecsService) @ probePath @ '' || exit 1'']"

definition container ::
  "'a constructProps_scheme \<Rightarrow> 'b serviceFields_scheme \<Rightarrow> containerHealthCheck \<Rightarrow> node" where
  "container props ecsService check =
     ([name ecsService @ ''-task-definition'', name ecsService @ ''-container''],
      ContainerDefinition
        \<lparr>containerName = name ecsService @ ''-container'',
         imageAsset = containerImage ecsService,
         environment = environmentVariables ecsService,
         streamPrefix = name ecsService,
         containerPort = port ecsService,
         dockerLabels = containerLabels props ecsService,
         healthCheck = check\<rparr>)"

definition ecsSecurityGroup :: "'a serviceFields_scheme \<Rightarrow> peer \<Rightarrow> node" where
  "ecsSecurityGroup ecsService source =
     ([name ecsService @ ''-security-group''],
      SecurityGroup (''Security group for the ECS service '' @ name ecsService) True
        [(source, port ecsService)])"

definition serviceId :: "'a constructProps_scheme \<Rightarrow> 'b serviceFields_scheme \<Rightarrow> string" where
  "serviceId props ecsService = appName props @ ''-'' @ name ecsService @ ''-service''"

definition fargateService ::
  "'a constructProps_scheme \<Rightarrow> 'b serviceFields_scheme \<Rightarrow> bool \<Rightarrow> (string \<times> string) list \<Rightarrow> node" where
  "fargateService props ecsService publicIp tags =
     ([serviceId props ecsService],
      FargateService
        \<lparr>assignPublicIp = publicIp,
         serviceDesiredCount = desiredCount ecsService,
         serviceName = name ecsService,
         serviceSubnets = PRIVATE_WITH_EGRESS,
         serviceTags = tags\<rparr>)"

section \<open>MultiServiceECSFargateLoadBalancedConstruct\<close>

definition loadBalancerId :: "'a constructProps_scheme \<Rightarrow> string" where
  "loadBalancerId props = appName props @ ''-'' @ tagEnv props @ ''-load-balancer''"

definition httpsListenerId :: "'a constructProps_scheme \<Rightarrow> string" where
  "httpsListenerId props = appName props @ ''-https-listener''"

definition notFoundBody :: string where
  "notFoundBody = ''{'' @ [CHR 0x22] @ ''message'' @ [CHR 0x22] @ '':''
     @ [CHR 0x22] @ ''Not Found'' @ [CHR 0x22] @ ''}''"

text \<open>
  The shared part, in the order of the constructor: hosted-zone lookup, certificate,
  cluster, load balancer, alias record, the two parameters, the HTTPS listener and the
  HTTP listener that redirects. \<open>region\<close> is the region of the enclosing stack.
\<close>

definition sharedConstructs ::
  "string \<Rightarrow> MultiServiceECSFargateLoadBalancedConstructProps \<Rightarrow> node list" where
  "sharedConstructs region props =
     [([appName props @ ''-hosted-zone-lookup''],
       HostedZone (hostedZoneId props) (domainName props)),
      ([appName props @ ''-ssl-certificate''],
       Certificate (''*.'' @ tagEnv props @ ''.'' @ domainName props)
         [apiSubdomainName props @ ''.'' @ domainName props]),
      ([clusterName props], Cluster (clusterName props)),
      ([loadBalancerId props],
       ApplicationLoadBalancer (loadBalancerId props) True PUBLIC
         [(''name'', appName props @ ''-load-balancer'')]),
      ([appName props @ ''-alias-record-'' @ region],
       ARecord (apiSubdomainName props @ ''.'' @ domainName props)),
      ([appName props @ ''-'' @ region @ ''-load-balancer-arn''],
       StringParameter (''/'' @ appName props @ ''/load-balancer-arn'') LoadBalancerArn),
      ([appName props @ ''-'' @ region @ ''-load-balancer-security-group-id''],
       StringParameter (''/'' @ appName props @ ''/load-balancer-security-group-id'')
         LoadBalancerSecurityGroupId),
      ([loadBalancerId props, httpsListenerId props],
       ApplicationListener 443 True (FixedResponse 404 ''application/json'' notFoundBody)),
      ([loadBalancerId props, appName props @ ''-http-listener''],
       ApplicationListener 80 False (Redirect ''HTTPS'' ''443''))]"

text \<open>The health-check values of a service: each field \<open>||\<close> its built-in constant.\<close>

definition resolvedHealthCheck :: "ECSServiceConfig \<Rightarrow> containerHealthCheck" where
  "resolvedHealthCheck ecsService =
     \<lparr>command = healthCheckCommand ecsService (path (healthCheckConfig ecsService)),
      interval = orNumber (intervalSeconds (healthCheckConfig ecsService)) 30,
      timeout = orNumber (timeoutSeconds (healthCheckConfig ecsService)) 5,
      retryCount = orNumber (retries (healthCheckConfig ecsService)) 3,
      startPeriod = orNumber (startPeriodSeconds (healthCheckConfig ecsService)) 30\<rparr>"

definition targetGroup ::
  "MultiServiceECSFargateLoadBalancedConstructProps \<Rightarrow> ECSServiceConfig \<Rightarrow> node" where
  "targetGroup props ecsService =
     ([loadBalancerId props, httpsListenerId props,
       appName props @ ''-'' @ name ecsService @ ''-tg''],
      ApplicationTargetGroup
        \<lparr>targetPort = port ecsService,
         targetGroupName = appName props @ ''-'' @ name ecsService @ ''-tg'',
         pathPatterns = [''/'' @ name ecsService @ ''/'' @ version ecsService @ ''/*''],
         targetHealthPath = path (healthCheckConfig ecsService),
         targetHealthInterval = interval (resolvedHealthCheck ecsService),
         targetHealthTimeout = timeout (resolvedHealthCheck ecsService),
         healthyHttpCodes = ''200-299'',
         rulePriority = priority ecsService\<rparr>)"

text \<open>
  The optional autoscaling: the scalable target with the capacity bounds when the block is
  there, then a policy for each target that is truthy.
\<close>

definition autoScaling ::
  "MultiServiceECSFargateLoadBalancedConstructProps \<Rightarrow> ECSServiceConfig \<Rightarrow> node list" where
  "autoScaling props ecsService =
     (case autoScalingConfig ecsService of
        None \<Rightarrow> []
      | Some a \<Rightarrow>
          ([serviceId props ecsService, ''TaskCount''],
           ScalableTaskCount (minCapacity a) (maxCapacity a))
          # ifNumber (targetCpuUtilization a) (\<lambda>n.
              [([serviceId props ecsService, ''TaskCount'',
                 appName props @ ''-'' @ name ecsService @ ''-cpu-scaling''],
                CpuUtilizationScaling n)])
          @ ifNumber (targetMemoryUtilization a) (\<lambda>n.
              [([serviceId props ecsService, ''TaskCount'',
                 appName props @ ''-'' @ name ecsService @ ''-memory-scaling''],
                MemoryUtilizationScaling n)]))"

text \<open>One pass of the loop over \<open>props.ecsServices\<close>: what it instantiates, in order.\<close>

definition ecsServiceConstructs ::
  "MultiServiceECSFargateLoadBalancedConstructProps \<Rightarrow> ECSServiceConfig \<Rightarrow> node list" where
  "ecsServiceConstructs props ecsService =
     [taskDefinition ecsService,
      logGroup ecsService,
      container props ecsService (resolvedHealthCheck ecsService),
      ecsSecurityGroup ecsService LoadBalancerSecurityGroup,
      fargateService props ecsService True
        [(''AppName'', appName props), (''Environment'', tagEnv props),
         (''ServiceName'', name ecsService)],
      targetGroup props ecsService]
     @ autoScaling props ecsService"

fun createServices ::
  "MultiServiceECSFargateLoadBalancedConstructProps \<Rightarrow> ECSServiceConfig list \<Rightarrow> scope \<Rightarrow> outcome" where
  "createServices props [] sc = (sc, None)"
| "createServices props (ecsService # rest) sc =
     (case addAll (ecsServiceConstructs props ecsService) sc of
        (sc', None) \<Rightarrow> createServices props rest sc'
      | (sc', Some e) \<Rightarrow> (sc', Some e))"

text \<open>
  The constructor: the schema is parsed first, and a failure is rethrown as a plain error;
  then the shared part, then the loop.
\<close>

definition MultiServiceECSFargateLoadBalancedConstruct ::
  "string \<Rightarrow> MultiServiceECSFargateLoadBalancedConstructProps \<Rightarrow> outcome" where
  "MultiServiceECSFargateLoadBalancedConstruct region props =
     (if MultiServiceECSFargateLoadBalancedConstructPropsSchema props \<noteq> []
      then ([], Some InvalidInputProperties)
      else case addAll (sharedConstructs region props) [] of
             (sc, None) \<Rightarrow> createServices props (ecsServices props) sc
           | (sc, Some e) \<Rightarrow> (sc, Some e))"

section \<open>SingleServicePrivateECSFargateConstruct\<close>

text \<open>The health check of the private service has the path from the input and fixed timing.\<close>

definition privateHealthCheck :: "privateService \<Rightarrow> containerHealthCheck" where
  "privateHealthCheck ecsService =
     \<lparr>command = healthCheckCommand ecsService (healthCheckPath ecsService),
      interval = 30, timeout = 5, retryCount = 3, startPeriod = 30\<rparr>"

definition privateServiceConstructs ::
  "SingleServicePrivateECSFargateConstructProps \<Rightarrow> privateService \<Rightarrow> node list" where
  "privateServiceConstructs props ecsService =
     [taskDefinition ecsService,
      logGroup ecsService,
      container props ecsService (privateHealthCheck ecsService),
      ecsSecurityGroup ecsService (Ipv4 (vpcCidrBlock (vpc props))),
      fargateService props ecsService False []]"

text \<open>
  The constructor parses the whole schema, creates the cluster, parses the service schema
  once more on \<open>props.service\<close>, and creates the service. A zod error is thrown as it is.
\<close>

definition SingleServicePrivateECSFargateConstruct ::
  "SingleServicePrivateECSFargateConstructProps \<Rightarrow> outcome" where
  "SingleServicePrivateECSFargateConstruct props =
     (if SingleServicePrivateECSFargateConstructPropsSchema props \<noteq> []
      then ([], Some (ZodError (SingleServicePrivateECSFargateConstructPropsSchema props)))
      else case addAll [([clusterName props], Cluster (clusterName props))] [] of
             (sc, Some e) \<Rightarrow> (sc, Some e)
           | (sc, None) \<Rightarrow>
               if ECSServicePropsSchema [] (service props) \<noteq> []
               then (sc, Some (ZodError (ECSServicePropsSchema [] (service props))))
               else addAll (privateServiceConstructs props (service props)) sc)"

section \<open>The library's own example\<close>

text \<open>
  \<open>lib/index.ts\<close> instantiates both constructs on a fresh \<open>Vpc\<close>; these are its arguments.
  The CIDR block is the default of \<open>Vpc\<close>.
\<close>

definition myVpc :: vpc where
  "myVpc = \<lparr>instanceofVpc = True, vpcCidrBlock = ''10.0.0.0/16''\<rparr>"

definition authService :: ECSServiceConfig where
  "authService =
     \<lparr>name = ''auth-service'', port = 8080, desiredCount = 2, version = ''v1'',
      envVariables = [''NODE_ENV'' \<mapsto> ''production'', ''CUSTOM_ENV_VAR'' \<mapsto> ''value''],
      imageConfig = \<lparr>imagePath = ''src/containers/auth-service'', imageName = Some ''Dockerfile'',
        imageLabels = Some [''service'' \<mapsto> ''auth-service'', ''version'' \<mapsto> ''v1'']\<rparr>,
      fargateConfig = Some \<lparr>cpu = Some 512, memoryLimitMiB = Some 1024\<rparr>,
      logGroupConfig = Some \<lparr>logGroupName = ''auth-service-log-group'',
        removalPolicy = DESTROY, retention = ONE_WEEK\<rparr>,
      priority = 1,
      healthCheckConfig = \<lparr>path = ''/health'', intervalSeconds = Some 20,
        timeoutSeconds = Some 5, retries = Some 3, startPeriodSeconds = Some 30\<rparr>,
      autoScalingConfig = Some \<lparr>minCapacity = 1, maxCapacity = 3,
        targetCpuUtilization = Some 70, targetMemoryUtilization = Some 80\<rparr>\<rparr>"

definition paymentService :: ECSServiceConfig where
  "paymentService =
     \<lparr>name = ''payment-service'', port = 8081, desiredCount = 2, version = ''v1'',
      envVariables = [''NODE_ENV'' \<mapsto> ''production''],
      imageConfig = \<lparr>imagePath = ''src/containers/payment-service'', imageName = None,
        imageLabels = None\<rparr>,
      fargateConfig = None,
      logGroupConfig = None,
      priority = 2,
      healthCheckConfig = \<lparr>path = ''/health'', intervalSeconds = None,
        timeoutSeconds = None, retries = None, startPeriodSeconds = None\<rparr>,
      autoScalingConfig = None\<rparr>"

definition myMultiServiceProps :: MultiServiceECSFargateLoadBalancedConstructProps where
  "myMultiServiceProps =
     \<lparr>appName = ''my-app'', tagEnv = ''dev'', vpc = myVpc,
      hostedZoneId = ''Z123456789ABCDEFG'', domainName = ''example.com'',
      apiSubdomainName = ''api'', ecsServices = [authService, paymentService]\<rparr>"

definition userService :: privateService where
  "userService =
     \<lparr>name = ''user-service'', port = 8080, desiredCount = 1, version = ''v1'',
      envVariables = [''NODE_ENV'' \<mapsto> ''production''],
      imageConfig = \<lparr>imagePath = ''src/containers/user-service'',
        imageName = Some ''Dockerfile.user'',
        imageLabels = Some [''service'' \<mapsto> ''user-service'', ''version'' \<mapsto> ''v1'']\<rparr>,
      fargateConfig = Some \<lparr>cpu = Some 512, memoryLimitMiB = Some 1024\<rparr>,
      logGroupConfig = Some \<lparr>logGroupName = ''user-service-log-group'',
        removalPolicy = RETAIN, retention = TWO_WEEKS\<rparr>,
      healthCheckPath = ''/health''\<rparr>"

definition mySingleServiceProps :: SingleServicePrivateECSFargateConstructProps where
  "mySingleServiceProps =
     \<lparr>appName = ''my-single-service-app'', tagEnv = ''dev'', vpc = myVpc,
      service = userService\<rparr>"

section \<open>The specification's words, and inputs for the examples\<close>

text \<open>
  The environment as the specification words it: the three injected keys, computed from the
  service's own port, name and version, overlaid with the caller's map; on a key of both
  the caller's value stands.
\<close>

definition specEnvironment :: "'a serviceFields_scheme \<Rightarrow> dict" where
  "specEnvironment s k =
     (case envVariables s k of
        Some v \<Rightarrow> Some v
      | None \<Rightarrow>
          if k = ''PORT'' then Some (showNumber (port s))
          else if k = ''SERVICE_NAME'' then Some (name s)
          else if k = ''API_VERSION'' then Some (version s)
          else None)"

text \<open>
  The docker labels as the claim words them: the caller's map when there is one, as it
  is; the three default entries otherwise.
\<close>

definition specLabels :: "'a constructProps_scheme \<Rightarrow> 'b serviceFields_scheme \<Rightarrow> dict" where
  "specLabels props s =
     (case imageLabels (imageConfig s) of
        Some labels \<Rightarrow> labels
      | None \<Rightarrow> [''cluster'' \<mapsto> appName props @ ''-cluster'', ''service'' \<mapsto> name s,
                  ''version'' \<mapsto> version s])"

text \<open>Where the container of a service sits: below the service's task definition.\<close>

definition containerPath :: "'a serviceFields_scheme \<Rightarrow> string list" where
  "containerPath s = [name s @ ''-task-definition'', name s @ ''-container'']"

text \<open>
  The specification's example of an override: service \<open>x\<close>, version \<open>v1\<close>, port 8080,
  with the caller's map \<open>{PORT: "9999"}\<close>; everything else as in the library's example.
\<close>

definition overrideService :: ECSServiceConfig where
  "overrideService = paymentService\<lparr>name := ''x'', port := 8080,
     envVariables := [''PORT'' \<mapsto> ''9999'']\<rparr>"

definition overridePrivateService :: privateService where
  "overridePrivateService = userService\<lparr>name := ''x'', port := 8080,
     envVariables := [''PORT'' \<mapsto> ''9999'']\<rparr>"

text \<open>
  A health-check block with the path and an interval only, and one with the path and an
  explicit start period of zero seconds.
\<close>

definition intervalOnlyService :: ECSServiceConfig where
  "intervalOnlyService = paymentService\<lparr>healthCheckConfig :=
     \<lparr>path = ''/health'', intervalSeconds = Some 10, timeoutSeconds = None, retries = None,
      startPeriodSeconds = None\<rparr>\<rparr>"

definition zeroStartPeriodService :: ECSServiceConfig where
  "zeroStartPeriodService = paymentService\<lparr>healthCheckConfig :=
     \<lparr>path = ''/health'', intervalSeconds = None, timeoutSeconds = None, retries = None,
      startPeriodSeconds = Some 0\<rparr>\<rparr>"

text \<open>
  What hangs below a child of the construct: the nodes whose path starts with the child's
  id and goes on. For a service these are its scalable target and scaling policies.
\<close>

definition below :: "string \<Rightarrow> scope \<Rightarrow> node list" where
  "below parent sc =
     filter (\<lambda>n. case fst n of x # y # rest \<Rightarrow> x = parent | _ \<Rightarrow> False) sc"

text \<open>
  The first service of the library's example with an autoscaling block that targets memory
  only, and the example with its second service renamed to the name of the first.
\<close>

definition memoryOnlyService :: ECSServiceConfig where
  "memoryOnlyService = authService\<lparr>autoScalingConfig :=
     Some \<lparr>minCapacity = 1, maxCapacity = 3, targetCpuUtilization = None,
       targetMemoryUtilization = Some 80\<rparr>\<rparr>"

definition sameNameProps :: MultiServiceECSFargateLoadBalancedConstructProps where
  "sameNameProps = myMultiServiceProps\<lparr>ecsServices :=
     [authService, paymentService\<lparr>name := ''auth-service''\<rparr>]\<rparr>"


text \<open>
  The same input with other listener priorities; where the load balancer and its HTTPS
  listener sit, and where the target group of a service sits below that listener.
\<close>

definition withPriorities ::
  "(ECSServiceConfig \<Rightarrow> int) \<Rightarrow> MultiServiceECSFargateLoadBalancedConstructProps
     \<Rightarrow> MultiServiceECSFargateLoadBalancedConstructProps" where
  "withPriorities f props =
     props\<lparr>ecsServices := map (\<lambda>s. s\<lparr>priority := f s\<rparr>) (ecsServices props)\<rparr>"

definition loadBalancerPath :: "MultiServiceECSFargateLoadBalancedConstructProps \<Rightarrow> string list" where
  "loadBalancerPath props = [appName props @ ''-'' @ tagEnv props @ ''-load-balancer'']"

definition httpsListenerPath :: "MultiServiceECSFargateLoadBalancedConstructProps \<Rightarrow> string list" where
  "httpsListenerPath props = loadBalancerPath props @ [appName props @ ''-https-listener'']"

definition targetGroupPath ::
  "MultiServiceECSFargateLoadBalancedConstructProps \<Rightarrow> ECSServiceConfig \<Rightarrow> string list" where
  "targetGroupPath props s = httpsListenerPath props @ [appName props @ ''-'' @ name s @ ''-tg'']"

section \<open>Facts about the schemas\<close>

text \<open>
  A schema raises no issue exactly when its condition holds, whatever the path.
\<close>

lemmas schema_defs = stringMin_def stringStartsWith_def numberMin_def numberMax_def literals_def
  optional_def ECSFargateConfigSchema_def ECSImageObjectSchema_def ECSLogGroupConfigSchema_def
  healthCheckConfigSchema_def autoScalingConfigSchema_def nameSchema_def portSchema_def
  desiredCountSchema_def versionSchema_def ECSServiceConfigSchema_def ECSServicePropsSchema_def
  vpcSchema_def constructPropsSchema_def

lemma stringMin_empty: "stringMin n p s = [] \<longleftrightarrow> n \<le> length s"
  by (simp add: stringMin_def not_less)

lemma stringStartsWith_empty: "stringStartsWith pre p s = [] \<longleftrightarrow> take (length pre) s = pre"
  by (simp add: stringStartsWith_def)

lemma numberMin_empty: "numberMin n p x = [] \<longleftrightarrow> n \<le> x"
  by (simp add: numberMin_def not_less)

lemma numberMax_empty: "numberMax n p x = [] \<longleftrightarrow> x \<le> n"
  by (simp add: numberMax_def not_less)

lemma literals_empty: "literals vs p x = [] \<longleftrightarrow> x \<in> set vs"
  by (simp add: literals_def)

lemma optional_empty:
  "optional schema p v = [] \<longleftrightarrow> (\<forall>x. v = Some x \<longrightarrow> schema p x = [])"
  by (simp add: optional_def split: option.splits)

lemmas empty_iffs = stringMin_empty stringStartsWith_empty numberMin_empty numberMax_empty
  literals_empty optional_empty

lemma ECSFargateConfigSchema_path:
  "ECSFargateConfigSchema p f = [] \<Longrightarrow> ECSFargateConfigSchema q f = []"
  by (simp add: ECSFargateConfigSchema_def empty_iffs)

lemma ECSLogGroupConfigSchema_path:
  "ECSLogGroupConfigSchema p l = [] \<Longrightarrow> ECSLogGroupConfigSchema q l = []"
  by (simp add: ECSLogGroupConfigSchema_def empty_iffs)

lemma optional_path:
  assumes "\<And>x. schema p x = [] \<Longrightarrow> schema q x = []" and "optional schema p v = []"
  shows "optional schema q v = []"
  using assms by (cases v) (simp_all add: optional_def)

lemma ECSServicePropsSchema_path:
  assumes "ECSServicePropsSchema p s = []"
  shows "ECSServicePropsSchema q s = []"
proof -
  from assms have parts:
    "nameSchema p s = []" "portSchema p s = []" "desiredCountSchema p s = []"
    "versionSchema p s = []" "ECSImageObjectSchema (p @ [Key ''image'']) (imageConfig s) = []"
    "stringMin 1 (p @ [Key ''healthCheckPath'']) (healthCheckPath s) = []"
    "stringStartsWith ''/'' (p @ [Key ''healthCheckPath'']) (healthCheckPath s) = []"
    "optional ECSFargateConfigSchema (p @ [Key ''fargateConfig'']) (fargateConfig s) = []"
    "optional ECSLogGroupConfigSchema (p @ [Key ''logGroupConfig'']) (logGroupConfig s) = []"
    by (simp_all add: ECSServicePropsSchema_def)
  have "optional ECSFargateConfigSchema (q @ [Key ''fargateConfig'']) (fargateConfig s) = []"
    using parts(8) by (rule optional_path [rotated]) (rule ECSFargateConfigSchema_path)
  moreover
  have "optional ECSLogGroupConfigSchema (q @ [Key ''logGroupConfig'']) (logGroupConfig s) = []"
    using parts(9) by (rule optional_path [rotated]) (rule ECSLogGroupConfigSchema_path)
  ultimately show ?thesis
    using parts(1-7)
    by (simp add: ECSServicePropsSchema_def nameSchema_def portSchema_def
          desiredCountSchema_def versionSchema_def ECSImageObjectSchema_def empty_iffs)
qed

lemma arraySchema_member:
  "arraySchema schema p i xs = [] \<Longrightarrow> x \<in> set xs \<Longrightarrow> \<exists>j. schema (p @ [Idx j]) x = []"
  by (induction xs arbitrary: i) auto

lemma Multi_valid_service:
  assumes "MultiServiceECSFargateLoadBalancedConstructPropsSchema props = []"
    and "s \<in> set (ecsServices props)"
  shows "\<exists>p. ECSServiceConfigSchema p s = []"
proof -
  from assms(1) have "arraySchema ECSServiceConfigSchema [Key ''ecsServices''] 0 (ecsServices props) = []"
    by (simp add: MultiServiceECSFargateLoadBalancedConstructPropsSchema_def)
  from arraySchema_member [OF this assms(2)] show ?thesis by blast
qed

lemma valid_targets:
  assumes "ECSServiceConfigSchema p s = []" and "autoScalingConfig s = Some a"
  shows "targetCpuUtilization a \<noteq> Some 0" and "targetMemoryUtilization a \<noteq> Some 0"
proof -
  from assms have "autoScalingConfigSchema (p @ [Key ''autoScalingConfig'']) a = []"
    by (simp add: ECSServiceConfigSchema_def optional_def)
  then show "targetCpuUtilization a \<noteq> Some 0" and "targetMemoryUtilization a \<noteq> Some 0"
    by (auto simp: autoScalingConfigSchema_def empty_iffs)
qed

text \<open>
  The priority of a service is of no concern to the schema.
\<close>

lemma ECSServiceConfigSchema_priority:
  "ECSServiceConfigSchema p (s\<lparr>priority := x\<rparr>) = ECSServiceConfigSchema p s"
  by (simp add: ECSServiceConfigSchema_def nameSchema_def portSchema_def desiredCountSchema_def
        versionSchema_def)

lemma arraySchema_priorities:
  "arraySchema ECSServiceConfigSchema p i (map (\<lambda>s. s\<lparr>priority := f s\<rparr>) ss)
     = arraySchema ECSServiceConfigSchema p i ss"
  by (induction ss arbitrary: i) (simp_all add: ECSServiceConfigSchema_priority)

lemma Schema_withPriorities:
  "MultiServiceECSFargateLoadBalancedConstructPropsSchema (withPriorities f props)
     = MultiServiceECSFargateLoadBalancedConstructPropsSchema props"
  by (simp add: MultiServiceECSFargateLoadBalancedConstructPropsSchema_def withPriorities_def
        constructPropsSchema_def arraySchema_priorities)

section \<open>Facts about the scope\<close>

text \<open>
  Adding a list of nodes succeeds exactly when their paths are new and pairwise distinct;
  the loop over the services adds the nodes of all services in a row.
\<close>

lemma addAll_append:
  "addAll (xs @ ys) sc =
     (case addAll xs sc of (sc', None) \<Rightarrow> addAll ys sc' | (sc', Some e) \<Rightarrow> (sc', Some e))"
  by (induction xs arbitrary: sc) auto

lemma createServices_addAll:
  "createServices props ss sc = addAll (concat (map (ecsServiceConstructs props) ss)) sc"
  by (induction ss arbitrary: sc) (auto simp: addAll_append split: prod.splits option.splits)

lemma addAll_scope: "snd (addAll ns sc) = None \<Longrightarrow> fst (addAll ns sc) = sc @ ns"
  by (induction ns arbitrary: sc) (auto split: if_splits)

lemma addAll_ok_iff:
  "snd (addAll ns sc) = None \<longleftrightarrow>
     distinct (map fst ns) \<and> set (map fst ns) \<inter> set (map fst sc) = {}"
  by (induction ns arbitrary: sc) auto

lemma addAll_error: "snd (addAll ns sc) = Some e \<Longrightarrow> \<exists>p. e = DuplicateConstruct p"
  by (induction ns arbitrary: sc) (auto split: if_splits)

lemma addAll_paths_only:
  "map fst ns = map fst ms \<Longrightarrow> map fst sc = map fst sc' \<Longrightarrow>
     snd (addAll ns sc) = snd (addAll ms sc')"
proof (induction ns arbitrary: ms sc sc')
  case Nil
  then show ?case by simp
next
  case (Cons n ns)
  then obtain m ms' where ms: "ms = m # ms'" "fst n = fst m" "map fst ns = map fst ms'"
    by (cases ms) auto
  from Cons.prems(2) have same: "set (map fst sc) = set (map fst sc')" by simp
  show ?case
  proof (cases "fst n \<in> set (map fst sc)")
    case True
    with same ms show ?thesis by simp
  next
    case False
    from Cons.prems(2) ms(2) have "map fst (sc @ [n]) = map fst (sc' @ [m])" by simp
    from Cons.IH [OF ms(3) this] False same ms show ?thesis by simp
  qed
qed

lemma Multi_addAll:
  "MultiServiceECSFargateLoadBalancedConstruct region props =
     (if MultiServiceECSFargateLoadBalancedConstructPropsSchema props \<noteq> []
      then ([], Some InvalidInputProperties)
      else addAll (sharedConstructs region props
             @ concat (map (ecsServiceConstructs props) (ecsServices props))) [])"
  by (simp add: MultiServiceECSFargateLoadBalancedConstruct_def addAll_append
        createServices_addAll split: prod.splits option.splits)

lemma Multi_success:
  assumes "snd (MultiServiceECSFargateLoadBalancedConstruct region props) = None"
  shows "MultiServiceECSFargateLoadBalancedConstructPropsSchema props = []"
    and "fst (MultiServiceECSFargateLoadBalancedConstruct region props) =
           sharedConstructs region props
           @ concat (map (ecsServiceConstructs props) (ecsServices props))"
proof -
  show valid: "MultiServiceECSFargateLoadBalancedConstructPropsSchema props = []"
    using assms by (auto simp: Multi_addAll split: if_splits)
  with assms show "fst (MultiServiceECSFargateLoadBalancedConstruct region props) =
           sharedConstructs region props
           @ concat (map (ecsServiceConstructs props) (ecsServices props))"
    using addAll_scope [of _ "[]"] by (simp add: Multi_addAll)
qed

lemma Multi_service_nodes:
  assumes "snd (MultiServiceECSFargateLoadBalancedConstruct region props) = None"
    and "s \<in> set (ecsServices props)"
  shows "set (ecsServiceConstructs props s)
           \<subseteq> set (fst (MultiServiceECSFargateLoadBalancedConstruct region props))"
  using assms by (auto simp: Multi_success(2))

lemma Multi_container:
  assumes "snd (MultiServiceECSFargateLoadBalancedConstruct region props) = None"
    and "s \<in> set (ecsServices props)"
  shows "container props s (resolvedHealthCheck s)
           \<in> set (fst (MultiServiceECSFargateLoadBalancedConstruct region props))"
  using Multi_service_nodes [OF assms] by (simp add: ecsServiceConstructs_def)

lemma Multi_shared_nodes:
  assumes "snd (MultiServiceECSFargateLoadBalancedConstruct region props) = None"
  shows "set (sharedConstructs region props)
           \<subseteq> set (fst (MultiServiceECSFargateLoadBalancedConstruct region props))"
  by (simp add: Multi_success(2) [OF assms])

lemma Multi_targetGroup:
  assumes "snd (MultiServiceECSFargateLoadBalancedConstruct region props) = None"
    and "s \<in> set (ecsServices props)"
  shows "targetGroup props s
           \<in> set (fst (MultiServiceECSFargateLoadBalancedConstruct region props))"
  using Multi_service_nodes [OF assms] by (simp add: ecsServiceConstructs_def)

text \<open>
  The ids of the private construct end differently, so valid input always builds.
\<close>

lemma private_paths_distinct:
  "distinct (map fst (([clusterName q], Cluster (clusterName q)) # privateServiceConstructs q s))"
proof -
  have ends: "\<And>a b :: string. a @ ''-cluster'' \<noteq> b @ ''-task-definition''"
    "\<And>a b :: string. a @ ''-cluster'' \<noteq> b @ ''-log-group''"
    "\<And>a b :: string. a @ ''-cluster'' \<noteq> b @ ''-security-group''"
    "\<And>a b c :: string. a @ ''-cluster'' \<noteq> b @ ''-'' @ c @ ''-service''"
    "\<And>a b :: string. a @ ''-task-definition'' \<noteq> b @ ''-log-group''"
    "\<And>a b :: string. a @ ''-task-definition'' \<noteq> b @ ''-security-group''"
    "\<And>a b c :: string. a @ ''-task-definition'' \<noteq> b @ ''-'' @ c @ ''-service''"
    "\<And>a b c :: string. a @ ''-log-group'' \<noteq> b @ ''-'' @ c @ ''-service''"
    "\<And>a b c :: string. a @ ''-security-group'' \<noteq> b @ ''-'' @ c @ ''-service''"
    by (auto dest: arg_cong [where f = last])
  show ?thesis
    using ends
    by (simp add: privateServiceConstructs_def clusterName_def taskDefinition_def logGroup_def
          container_def ecsSecurityGroup_def fargateService_def serviceId_def)
qed

lemma Single_valid:
  assumes "SingleServicePrivateECSFargateConstructPropsSchema q = []"
  shows "SingleServicePrivateECSFargateConstruct q =
           (([clusterName q], Cluster (clusterName q)) # privateServiceConstructs q (service q), None)"
proof -
  from assms have "ECSServicePropsSchema [Key ''service''] (service q) = []"
    by (simp add: SingleServicePrivateECSFargateConstructPropsSchema_def)
  then have again: "ECSServicePropsSchema [] (service q) = []"
    by (rule ECSServicePropsSchema_path)
  have ok: "snd (addAll (([clusterName q], Cluster (clusterName q))
                   # privateServiceConstructs q (service q)) []) = None"
    using private_paths_distinct [of q "service q"] by (simp only: addAll_ok_iff) simp
  from addAll_scope [OF ok] ok
  have "addAll (([clusterName q], Cluster (clusterName q))
                   # privateServiceConstructs q (service q)) []
        = (([clusterName q], Cluster (clusterName q)) # privateServiceConstructs q (service q), None)"
    by (simp add: prod_eq_iff)
  with assms again show ?thesis
    by (simp add: SingleServicePrivateECSFargateConstruct_def)
qed

lemma Single_container:
  assumes "SingleServicePrivateECSFargateConstructPropsSchema q = []"
  shows "container q (service q) (privateHealthCheck (service q))
           \<in> set (fst (SingleServicePrivateECSFargateConstruct q))"
  by (simp add: Single_valid [OF assms] privateServiceConstructs_def)

text \<open>
  The environment and the labels of the source are those of the specification's words.
\<close>

lemma environmentVariables_spec: "environmentVariables s = specEnvironment s"
  by (rule ext) (simp add: environmentVariables_def specEnvironment_def map_add_def
        split: option.splits)

lemma containerLabels_spec: "containerLabels props s = specLabels props s"
  by (simp add: containerLabels_def specLabels_def orObject_def clusterName_def
        split: option.splits)

text \<open>
  What does hold of an explicit timing value: one that is not zero stands.
\<close>

lemma resolvedHealthCheck_explicit:
  "intervalSeconds (healthCheckConfig s) = Some i \<Longrightarrow> i \<noteq> 0 \<Longrightarrow> interval (resolvedHealthCheck s) = i"
  "timeoutSeconds (healthCheckConfig s) = Some t \<Longrightarrow> t \<noteq> 0 \<Longrightarrow> timeout (resolvedHealthCheck s) = t"
  "retries (healthCheckConfig s) = Some r \<Longrightarrow> r \<noteq> 0 \<Longrightarrow> retryCount (resolvedHealthCheck s) = r"
  "startPeriodSeconds (healthCheckConfig s) = Some d \<Longrightarrow> d \<noteq> 0 \<Longrightarrow> startPeriod (resolvedHealthCheck s) = d"
  by (simp_all add: resolvedHealthCheck_def orNumber_def)

text \<open>
  A construct that was built has services of pairwise distinct names: each service puts
  its task definition, named after the service, into the same scope.
\<close>

lemma taskDefinition_path:
  "[name s @ ''-task-definition''] \<in> set (map fst (ecsServiceConstructs props s))"
  by (simp add: ecsServiceConstructs_def taskDefinition_def)

lemma service_names_distinct:
  "distinct (map fst (concat (map (ecsServiceConstructs props) ss))) \<Longrightarrow> distinct (map name ss)"
proof (induction ss)
  case Nil
  then show ?case by simp
next
  case (Cons s ss)
  from Cons.prems have rest: "distinct (map fst (concat (map (ecsServiceConstructs props) ss)))"
    and apart: "set (map fst (ecsServiceConstructs props s))
        \<inter> set (map fst (concat (map (ecsServiceConstructs props) ss))) = {}"
    by simp_all
  have "name s \<notin> set (map name ss)"
  proof
    assume "name s \<in> set (map name ss)"
    then obtain s' where s': "s' \<in> set ss" "name s' = name s" by auto
    from taskDefinition_path [of s' props] s'(1)
    have "[name s' @ ''-task-definition'']
            \<in> set (map fst (concat (map (ecsServiceConstructs props) ss)))"
      by auto
    with taskDefinition_path [of s props] s'(2) apart show False by auto
  qed
  with Cons.IH [OF rest] show ?case by simp
qed

lemma Multi_names_distinct:
  assumes "snd (MultiServiceECSFargateLoadBalancedConstruct region props) = None"
  shows "distinct (map name (ecsServices props))"
proof -
  from assms have "snd (addAll (sharedConstructs region props
             @ concat (map (ecsServiceConstructs props) (ecsServices props))) []) = None"
    by (simp add: Multi_addAll split: if_splits)
  then have "distinct (map fst (concat (map (ecsServiceConstructs props) (ecsServices props))))"
    by (simp add: addAll_ok_iff)
  then show ?thesis by (rule service_names_distinct)
qed

text \<open>
  Below a service of a construct that was built hangs its own autoscaling and nothing else.
\<close>

lemma below_append: "below parent (xs @ ys) = below parent xs @ below parent ys"
  by (simp add: below_def)

lemma below_concat: "below parent (concat xss) = concat (map (below parent) xss)"
  by (induction xss) (simp_all add: below_append, simp add: below_def)

lemma id_ends:
  "\<And>a t b n :: string. a @ ''-'' @ t @ ''-load-balancer'' \<noteq> b @ ''-'' @ n @ ''-service''"
  "\<And>a b n :: string. a @ ''-task-definition'' \<noteq> b @ ''-'' @ n @ ''-service''"
  by (auto dest: arg_cong [where f = last])

lemma below_shared: "below (serviceId props s) (sharedConstructs region props) = []"
  using id_ends(1) [of "appName props" "tagEnv props" "appName props" "name s"]
  by (simp add: below_def sharedConstructs_def serviceId_def loadBalancerId_def)

lemma below_autoScaling:
  "below parent (autoScaling props s') =
     (if serviceId props s' = parent then autoScaling props s' else [])"
  by (simp add: below_def autoScaling_def ifNumber_def split: option.splits)

lemma below_service:
  "below (serviceId props s) (ecsServiceConstructs props s') =
     (if name s' = name s then autoScaling props s' else [])"
proof -
  have fixed: "below (serviceId props s)
      [taskDefinition s', logGroup s', container props s' (resolvedHealthCheck s'),
       ecsSecurityGroup s' LoadBalancerSecurityGroup,
       fargateService props s' True
         [(''AppName'', appName props), (''Environment'', tagEnv props),
          (''ServiceName'', name s')],
       targetGroup props s'] = []"
    using id_ends(1) [of "appName props" "tagEnv props" "appName props" "name s"]
      id_ends(2) [of "name s'" "appName props" "name s"]
    by (simp add: below_def taskDefinition_def logGroup_def container_def ecsSecurityGroup_def
          fargateService_def targetGroup_def serviceId_def loadBalancerId_def)
  have same: "serviceId props s' = serviceId props s \<longleftrightarrow> name s' = name s"
    by (simp add: serviceId_def)
  show ?thesis
    unfolding ecsServiceConstructs_def below_append fixed below_autoScaling same by simp
qed

lemma concat_pick:
  "distinct (map key xs) \<Longrightarrow> x \<in> set xs \<Longrightarrow>
     concat (map (\<lambda>y. if key y = key x then g y else []) xs) = g x"
proof (induction xs)
  case Nil
  then show ?case by simp
next
  case (Cons y ys)
  show ?case
  proof (cases "key y = key x")
    case True
    with Cons.prems have "x = y" and none: "\<forall>z \<in> set ys. key z \<noteq> key x"
      by (auto simp: image_iff)
    from none have "concat (map (\<lambda>y. if key y = key x then g y else []) ys) = []"
      by (induction ys) auto
    with True \<open>x = y\<close> show ?thesis by simp
  next
    case False
    with Cons.prems have "x \<in> set ys" "distinct (map key ys)" by auto
    with Cons.IH False show ?thesis by simp
  qed
qed

lemma Multi_below_service:
  assumes "snd (MultiServiceECSFargateLoadBalancedConstruct region props) = None"
    and "s \<in> set (ecsServices props)"
  shows "below (serviceId props s) (fst (MultiServiceECSFargateLoadBalancedConstruct region props))
           = autoScaling props s"
proof -
  have "below (serviceId props s) (fst (MultiServiceECSFargateLoadBalancedConstruct region props))
      = concat (map (\<lambda>s'. if name s' = name s then autoScaling props s' else [])
          (ecsServices props))"
    by (simp add: Multi_success(2) [OF assms(1)] below_append below_shared below_concat
          below_service comp_def)
  also have "\<dots> = autoScaling props s"
    using Multi_names_distinct [OF assms(1)] assms(2) by (rule concat_pick)
  finally show ?thesis .
qed

text \<open>
  No path depends on a priority.
\<close>

lemma shared_withPriorities:
  "sharedConstructs region (withPriorities f props) = sharedConstructs region props"
  by (simp add: sharedConstructs_def withPriorities_def clusterName_def loadBalancerId_def
        httpsListenerId_def)

lemma service_paths_withPriorities:
  "map fst (ecsServiceConstructs (withPriorities f props) (s\<lparr>priority := x\<rparr>))
     = map fst (ecsServiceConstructs props s)"
  by (simp add: ecsServiceConstructs_def withPriorities_def taskDefinition_def logGroup_def
        container_def ecsSecurityGroup_def fargateService_def targetGroup_def autoScaling_def
        serviceId_def loadBalancerId_def httpsListenerId_def ifNumber_def
      split: option.splits)

lemma paths_withPriorities:
  "map fst (concat (map (ecsServiceConstructs (withPriorities f props))
       (map (\<lambda>s. s\<lparr>priority := f s\<rparr>) ss)))
     = map fst (concat (map (ecsServiceConstructs props) ss))"
  by (induction ss) (simp_all add: service_paths_withPriorities)

section \<open>Facts about the example inputs\<close>

lemmas node_defs = clusterName_def taskDefinition_def logGroup_def container_def
  ecsSecurityGroup_def serviceId_def fargateService_def loadBalancerId_def httpsListenerId_def
  sharedConstructs_def targetGroup_def autoScaling_def ecsServiceConstructs_def
  privateServiceConstructs_def ifNumber_def

lemma authService_valid: "ECSServiceConfigSchema p authService = []"
  by (simp add: schema_defs authService_def)

lemma paymentService_valid: "ECSServiceConfigSchema p paymentService = []"
  by (simp add: schema_defs paymentService_def)

lemma overrideService_valid: "ECSServiceConfigSchema p overrideService = []"
  by (simp add: schema_defs overrideService_def paymentService_def)

lemma memoryOnlyService_valid: "ECSServiceConfigSchema p memoryOnlyService = []"
  by (simp add: schema_defs memoryOnlyService_def authService_def)

lemma myMultiServiceProps_shared_valid:
  "MultiServiceECSFargateLoadBalancedConstructPropsSchema (myMultiServiceProps\<lparr>ecsServices := ss\<rparr>)
     = (if length ss < 1 then [([Key ''ecsServices''], too_small)] else [])
       @ arraySchema ECSServiceConfigSchema [Key ''ecsServices''] 0 ss"
  by (simp add: MultiServiceECSFargateLoadBalancedConstructPropsSchema_def constructPropsSchema_def
        stringMin_def vpcSchema_def myMultiServiceProps_def myVpc_def)

lemma example_multi_valid:
  "MultiServiceECSFargateLoadBalancedConstructPropsSchema myMultiServiceProps = []"
  using myMultiServiceProps_shared_valid [of "[authService, paymentService]"]
  by (simp add: authService_valid paymentService_valid myMultiServiceProps_def)

lemma example_multi_ok:
  "snd (MultiServiceECSFargateLoadBalancedConstruct ''us-east-1'' myMultiServiceProps) = None"
  apply (simp add: MultiServiceECSFargateLoadBalancedConstruct_def example_multi_valid)
  apply (simp add: node_defs myMultiServiceProps_def authService_def paymentService_def)
  done

lemma example_single_valid:
  "SingleServicePrivateECSFargateConstructPropsSchema mySingleServiceProps = []"
  by (simp add: SingleServicePrivateECSFargateConstructPropsSchema_def schema_defs
        mySingleServiceProps_def userService_def myVpc_def)

lemma override_multi_ok:
  "snd (MultiServiceECSFargateLoadBalancedConstruct ''us-east-1''
         (myMultiServiceProps\<lparr>ecsServices := [overrideService]\<rparr>)) = None"
  apply (simp add: MultiServiceECSFargateLoadBalancedConstruct_def
          myMultiServiceProps_shared_valid overrideService_valid)
  apply (simp add: node_defs myMultiServiceProps_def overrideService_def paymentService_def)
  done

lemma override_single_valid:
  "SingleServicePrivateECSFargateConstructPropsSchema
     (mySingleServiceProps\<lparr>service := overridePrivateService\<rparr>) = []"
  by (simp add: SingleServicePrivateECSFargateConstructPropsSchema_def schema_defs
        mySingleServiceProps_def overridePrivateService_def userService_def myVpc_def)

lemma memory_only_ok:
  "snd (MultiServiceECSFargateLoadBalancedConstruct ''us-east-1''
         (myMultiServiceProps\<lparr>ecsServices := [memoryOnlyService, paymentService]\<rparr>)) = None"
  apply (simp add: MultiServiceECSFargateLoadBalancedConstruct_def
          myMultiServiceProps_shared_valid memoryOnlyService_valid paymentService_valid)
  apply (simp add: node_defs myMultiServiceProps_def memoryOnlyService_def authService_def
          paymentService_def)
  done

section \<open>The claims\<close>

text \<open>
  C9. The port check is inclusive at both ends: a service with port 1 or port 65535 raises
  no issue on its port, and a service that validates still validates with either port;
  port 0 raises \<open>too_small\<close> and port 65536 raises \<open>too_big\<close> on the path of the port, so the
  schema of the service fails, and the constructor of a topology with such a service throws
  its validation error.
\<close>

theorem port_boundaries:
  "portSchema p (s\<lparr>port := 1\<rparr>) = [] \<and> portSchema p (s\<lparr>port := 65535\<rparr>) = []
   \<and> (ECSServiceConfigSchema p s = [] \<longrightarrow>
        ECSServiceConfigSchema p (s\<lparr>port := 1\<rparr>) = []
        \<and> ECSServiceConfigSchema p (s\<lparr>port := 65535\<rparr>) = [])
   \<and> (p @ [Key ''port''], too_small) \<in> set (ECSServiceConfigSchema p (s\<lparr>port := 0\<rparr>))
   \<and> (p @ [Key ''port''], too_big) \<in> set (ECSServiceConfigSchema p (s\<lparr>port := 65536\<rparr>))
   \<and> (s \<in> set (ecsServices props) \<and> (port s = 0 \<or> port s = 65536) \<longrightarrow>
        MultiServiceECSFargateLoadBalancedConstruct region props
          = ([], Some InvalidInputProperties))"
proof -
  have inside: "portSchema p (s\<lparr>port := 1\<rparr>) = []" "portSchema p (s\<lparr>port := 65535\<rparr>) = []"
    by (simp_all add: portSchema_def numberMin_def numberMax_def)
  have rest: "ECSServiceConfigSchema p s = [] \<Longrightarrow>
      ECSServiceConfigSchema p (s\<lparr>port := q\<rparr>) = portSchema p (s\<lparr>port := q\<rparr>)" for q
    by (simp add: ECSServiceConfigSchema_def nameSchema_def desiredCountSchema_def
          versionSchema_def)
  have low: "(p @ [Key ''port''], too_small) \<in> set (portSchema p (s\<lparr>port := 0\<rparr>))"
    by (simp add: portSchema_def numberMin_def)
  have high: "(p @ [Key ''port''], too_big) \<in> set (portSchema p (s\<lparr>port := 65536\<rparr>))"
    by (simp add: portSchema_def numberMax_def numberMin_def)
  from low have low': "(p @ [Key ''port''], too_small) \<in> set (ECSServiceConfigSchema p (s\<lparr>port := 0\<rparr>))"
    by (simp add: ECSServiceConfigSchema_def)
  from high have high': "(p @ [Key ''port''], too_big) \<in> set (ECSServiceConfigSchema p (s\<lparr>port := 65536\<rparr>))"
    by (simp add: ECSServiceConfigSchema_def)
  have outside: "MultiServiceECSFargateLoadBalancedConstruct region props
          = ([], Some InvalidInputProperties)"
    if member: "s \<in> set (ecsServices props)" and out: "port s = 0 \<or> port s = 65536"
  proof -
    have "MultiServiceECSFargateLoadBalancedConstructPropsSchema props \<noteq> []"
    proof
      assume "MultiServiceECSFargateLoadBalancedConstructPropsSchema props = []"
      from Multi_valid_service [OF this member] obtain q where "ECSServiceConfigSchema q s = []"
        by blast
      then have "portSchema q s = []" by (simp add: ECSServiceConfigSchema_def)
      with out show False by (auto simp: portSchema_def empty_iffs)
    qed
    then show ?thesis by (simp add: MultiServiceECSFargateLoadBalancedConstruct_def)
  qed
  from inside rest low' high' outside show ?thesis by simp
qed

theorem port_boundaries_witness:
  "ECSServiceConfigSchema [] authService = []
   \<and> ECSServiceConfigSchema [] (authService\<lparr>port := 1\<rparr>) = []
   \<and> ECSServiceConfigSchema [] (authService\<lparr>port := 65535\<rparr>) = []
   \<and> ECSServiceConfigSchema [] (authService\<lparr>port := 0\<rparr>) \<noteq> []
   \<and> ECSServiceConfigSchema [] (authService\<lparr>port := 65536\<rparr>) \<noteq> []
   \<and> MultiServiceECSFargateLoadBalancedConstruct ''us-east-1''
         (myMultiServiceProps\<lparr>ecsServices := [authService, paymentService\<lparr>port := 65536\<rparr>]\<rparr>)
       = ([], Some InvalidInputProperties)"
proof -
  from port_boundaries [of "[]" authService] authService_valid [of "[]"]
  have schema: "ECSServiceConfigSchema [] (authService\<lparr>port := 1\<rparr>) = []"
    "ECSServiceConfigSchema [] (authService\<lparr>port := 65535\<rparr>) = []"
    "ECSServiceConfigSchema [] (authService\<lparr>port := 0\<rparr>) \<noteq> []"
    "ECSServiceConfigSchema [] (authService\<lparr>port := 65536\<rparr>) \<noteq> []"
    by auto
  from port_boundaries [of "[]" "paymentService\<lparr>port := 65536\<rparr>"
      "myMultiServiceProps\<lparr>ecsServices := [authService, paymentService\<lparr>port := 65536\<rparr>]\<rparr>"
      "''us-east-1''"]
  have construct: "MultiServiceECSFargateLoadBalancedConstruct ''us-east-1''
         (myMultiServiceProps\<lparr>ecsServices := [authService, paymentService\<lparr>port := 65536\<rparr>]\<rparr>)
       = ([], Some InvalidInputProperties)"
    by simp
  from authService_valid [of "[]"] schema construct show ?thesis by simp
qed

text \<open>
  C4. A violated rule of the schema stops either constructor before anything is derived:
  the multi-service constructor throws its plain error, the private one the zod error, with
  an empty scope. Conversely neither error ever comes with a non-empty scope: in particular
  the second parse of the private constructor, which follows the creation of the cluster,
  cannot fail.
\<close>

theorem validation_precedes_construction:
  "(MultiServiceECSFargateLoadBalancedConstructPropsSchema props \<noteq> [] \<longrightarrow>
      MultiServiceECSFargateLoadBalancedConstruct region props = ([], Some InvalidInputProperties))
   \<and> (\<forall>sc. MultiServiceECSFargateLoadBalancedConstruct region props
              = (sc, Some InvalidInputProperties) \<longrightarrow> sc = [])
   \<and> (SingleServicePrivateECSFargateConstructPropsSchema q \<noteq> [] \<longrightarrow>
        SingleServicePrivateECSFargateConstruct q
          = ([], Some (ZodError (SingleServicePrivateECSFargateConstructPropsSchema q))))
   \<and> (\<forall>sc issues. SingleServicePrivateECSFargateConstruct q = (sc, Some (ZodError issues))
          \<longrightarrow> sc = [])"
proof (intro conjI allI impI)
  assume "MultiServiceECSFargateLoadBalancedConstructPropsSchema props \<noteq> []"
  then show "MultiServiceECSFargateLoadBalancedConstruct region props
               = ([], Some InvalidInputProperties)"
    by (simp add: MultiServiceECSFargateLoadBalancedConstruct_def)
next
  fix sc
  assume r: "MultiServiceECSFargateLoadBalancedConstruct region props
               = (sc, Some InvalidInputProperties)"
  show "sc = []"
  proof (cases "MultiServiceECSFargateLoadBalancedConstructPropsSchema props = []")
    case True
    with r have "snd (addAll (sharedConstructs region props
             @ concat (map (ecsServiceConstructs props) (ecsServices props))) [])
             = Some InvalidInputProperties"
      by (simp add: Multi_addAll)
    from addAll_error [OF this] show ?thesis by simp
  next
    case False
    with r show ?thesis by (simp add: MultiServiceECSFargateLoadBalancedConstruct_def)
  qed
next
  assume "SingleServicePrivateECSFargateConstructPropsSchema q \<noteq> []"
  then show "SingleServicePrivateECSFargateConstruct q
          = ([], Some (ZodError (SingleServicePrivateECSFargateConstructPropsSchema q)))"
    by (simp add: SingleServicePrivateECSFargateConstruct_def)
next
  fix sc issues
  assume r: "SingleServicePrivateECSFargateConstruct q = (sc, Some (ZodError issues))"
  show "sc = []"
  proof (cases "SingleServicePrivateECSFargateConstructPropsSchema q = []")
    case True
    then have "ECSServicePropsSchema [Key ''service''] (service q) = []"
      by (simp add: SingleServicePrivateECSFargateConstructPropsSchema_def)
    then have again: "ECSServicePropsSchema [] (service q) = []"
      by (rule ECSServicePropsSchema_path)
    with True r have "snd (addAll (privateServiceConstructs q (service q))
        [([clusterName q], Cluster (clusterName q))]) = Some (ZodError issues)"
      by (simp add: SingleServicePrivateECSFargateConstruct_def)
    from addAll_error [OF this] show ?thesis by simp
  next
    case False
    with r show ?thesis by (simp add: SingleServicePrivateECSFargateConstruct_def)
  qed
qed

theorem validation_precedes_construction_witness:
  "MultiServiceECSFargateLoadBalancedConstructPropsSchema (myMultiServiceProps\<lparr>appName := ''ab''\<rparr>) \<noteq> []
   \<and> MultiServiceECSFargateLoadBalancedConstruct ''us-east-1'' (myMultiServiceProps\<lparr>appName := ''ab''\<rparr>)
       = ([], Some InvalidInputProperties)
   \<and> MultiServiceECSFargateLoadBalancedConstruct ''us-east-1'' (myMultiServiceProps\<lparr>ecsServices := []\<rparr>)
       = ([], Some InvalidInputProperties)
   \<and> SingleServicePrivateECSFargateConstructPropsSchema
        (mySingleServiceProps\<lparr>service := userService\<lparr>port := 0\<rparr>\<rparr>) \<noteq> []
   \<and> SingleServicePrivateECSFargateConstruct (mySingleServiceProps\<lparr>service := userService\<lparr>port := 0\<rparr>\<rparr>)
       = ([], Some (ZodError [([Key ''service'', Key ''port''], too_small)]))"
proof -
  have m: "MultiServiceECSFargateLoadBalancedConstructPropsSchema
             (myMultiServiceProps\<lparr>appName := ''ab''\<rparr>) \<noteq> []"
    by (simp add: MultiServiceECSFargateLoadBalancedConstructPropsSchema_def
          constructPropsSchema_def stringMin_def)
  have e: "MultiServiceECSFargateLoadBalancedConstructPropsSchema
             (myMultiServiceProps\<lparr>ecsServices := []\<rparr>) \<noteq> []"
    by (simp add: myMultiServiceProps_shared_valid)
  have s: "SingleServicePrivateECSFargateConstructPropsSchema
             (mySingleServiceProps\<lparr>service := userService\<lparr>port := 0\<rparr>\<rparr>)
           = [([Key ''service'', Key ''port''], too_small)]"
    by (simp add: SingleServicePrivateECSFargateConstructPropsSchema_def schema_defs
          mySingleServiceProps_def userService_def myVpc_def)
  from m s validation_precedes_construction
         [of "myMultiServiceProps\<lparr>appName := ''ab''\<rparr>" "''us-east-1''"
             "mySingleServiceProps\<lparr>service := userService\<lparr>port := 0\<rparr>\<rparr>"]
  have one: "MultiServiceECSFargateLoadBalancedConstruct ''us-east-1'' (myMultiServiceProps\<lparr>appName := ''ab''\<rparr>)
       = ([], Some InvalidInputProperties)"
    "SingleServicePrivateECSFargateConstruct (mySingleServiceProps\<lparr>service := userService\<lparr>port := 0\<rparr>\<rparr>)
       = ([], Some (ZodError [([Key ''service'', Key ''port''], too_small)]))"
    by simp_all
  from e validation_precedes_construction
         [of "myMultiServiceProps\<lparr>ecsServices := []\<rparr>" "''us-east-1''"]
  have two: "MultiServiceECSFargateLoadBalancedConstruct ''us-east-1'' (myMultiServiceProps\<lparr>ecsServices := []\<rparr>)
       = ([], Some InvalidInputProperties)"
    by simp
  from m s one two show ?thesis by simp
qed

text \<open>
  C1. In a multi-service construct that was built, the container of every service, and in
  a private construct with valid input the container of its service, has as environment
  the three injected keys overlaid with the caller's map, the caller's value standing on
  a key of both.
\<close>

theorem environment_merge:
  "(snd (MultiServiceECSFargateLoadBalancedConstruct region props) = None \<longrightarrow>
      (\<forall>s \<in> set (ecsServices props). \<exists>c.
          (containerPath s, ContainerDefinition c)
            \<in> set (fst (MultiServiceECSFargateLoadBalancedConstruct region props))
          \<and> environment c = specEnvironment s))
   \<and> (SingleServicePrivateECSFargateConstructPropsSchema q = [] \<longrightarrow>
      (\<exists>c. (containerPath (service q), ContainerDefinition c)
            \<in> set (fst (SingleServicePrivateECSFargateConstruct q))
          \<and> environment c = specEnvironment (service q)))"
proof (intro conjI impI ballI)
  fix s
  assume "snd (MultiServiceECSFargateLoadBalancedConstruct region props) = None"
    and "s \<in> set (ecsServices props)"
  from Multi_container [OF this]
  show "\<exists>c. (containerPath s, ContainerDefinition c)
            \<in> set (fst (MultiServiceECSFargateLoadBalancedConstruct region props))
          \<and> environment c = specEnvironment s"
    by (auto simp: container_def containerPath_def environmentVariables_spec)
next
  assume "SingleServicePrivateECSFargateConstructPropsSchema q = []"
  from Single_container [OF this]
  show "\<exists>c. (containerPath (service q), ContainerDefinition c)
            \<in> set (fst (SingleServicePrivateECSFargateConstruct q))
          \<and> environment c = specEnvironment (service q)"
    by (auto simp: container_def containerPath_def environmentVariables_spec)
qed

theorem environment_merge_witness:
  "snd (MultiServiceECSFargateLoadBalancedConstruct ''us-east-1''
         (myMultiServiceProps\<lparr>ecsServices := [overrideService]\<rparr>)) = None
   \<and> (\<exists>c. ([''x-task-definition'', ''x-container''], ContainerDefinition c)
            \<in> set (fst (MultiServiceECSFargateLoadBalancedConstruct ''us-east-1''
                 (myMultiServiceProps\<lparr>ecsServices := [overrideService]\<rparr>)))
          \<and> environment c ''PORT'' = Some ''9999''
          \<and> environment c ''SERVICE_NAME'' = Some ''x''
          \<and> environment c ''API_VERSION'' = Some ''v1'')
   \<and> (\<exists>c. ([''x-task-definition'', ''x-container''], ContainerDefinition c)
            \<in> set (fst (SingleServicePrivateECSFargateConstruct
                 (mySingleServiceProps\<lparr>service := overridePrivateService\<rparr>)))
          \<and> environment c ''PORT'' = Some ''9999''
          \<and> environment c ''SERVICE_NAME'' = Some ''x''
          \<and> environment c ''API_VERSION'' = Some ''v1'')"
proof -
  have env: "specEnvironment overrideService ''PORT'' = Some ''9999''"
    "specEnvironment overrideService ''SERVICE_NAME'' = Some ''x''"
    "specEnvironment overrideService ''API_VERSION'' = Some ''v1''"
    "containerPath overrideService = [''x-task-definition'', ''x-container'']"
    by (simp_all add: specEnvironment_def containerPath_def overrideService_def paymentService_def)
  have env': "specEnvironment overridePrivateService ''PORT'' = Some ''9999''"
    "specEnvironment overridePrivateService ''SERVICE_NAME'' = Some ''x''"
    "specEnvironment overridePrivateService ''API_VERSION'' = Some ''v1''"
    "containerPath overridePrivateService = [''x-task-definition'', ''x-container'']"
    by (simp_all add: specEnvironment_def containerPath_def overridePrivateService_def
          userService_def)
  from environment_merge [of "''us-east-1''" "myMultiServiceProps\<lparr>ecsServices := [overrideService]\<rparr>"
        "mySingleServiceProps\<lparr>service := overridePrivateService\<rparr>"]
    override_multi_ok override_single_valid env env'
  show ?thesis by auto
qed

text \<open>
  C10. The docker labels of the container, in both constructs: without a labels map in the
  image block they are the three entries cluster, service and version; a labels map that
  is supplied stands as it is, so these three entries are there only if the caller wrote
  them.
\<close>

theorem docker_labels_default:
  "(snd (MultiServiceECSFargateLoadBalancedConstruct region props) = None \<longrightarrow>
      (\<forall>s \<in> set (ecsServices props). \<exists>c.
          (containerPath s, ContainerDefinition c)
            \<in> set (fst (MultiServiceECSFargateLoadBalancedConstruct region props))
          \<and> dockerLabels c = specLabels props s))
   \<and> (SingleServicePrivateECSFargateConstructPropsSchema q = [] \<longrightarrow>
      (\<exists>c. (containerPath (service q), ContainerDefinition c)
            \<in> set (fst (SingleServicePrivateECSFargateConstruct q))
          \<and> dockerLabels c = specLabels q (service q)))"
proof (intro conjI impI ballI)
  fix s
  assume "snd (MultiServiceECSFargateLoadBalancedConstruct region props) = None"
    and "s \<in> set (ecsServices props)"
  then have "container props s (resolvedHealthCheck s)
      \<in> set (fst (MultiServiceECSFargateLoadBalancedConstruct region props))"
    by (rule Multi_container)
  then show "\<exists>c. (containerPath s, ContainerDefinition c)
            \<in> set (fst (MultiServiceECSFargateLoadBalancedConstruct region props))
          \<and> dockerLabels c = specLabels props s"
    by (auto simp: container_def containerPath_def containerLabels_spec)
next
  assume "SingleServicePrivateECSFargateConstructPropsSchema q = []"
  then have "container q (service q) (privateHealthCheck (service q))
      \<in> set (fst (SingleServicePrivateECSFargateConstruct q))"
    by (rule Single_container)
  then show "\<exists>c. (containerPath (service q), ContainerDefinition c)
            \<in> set (fst (SingleServicePrivateECSFargateConstruct q))
          \<and> dockerLabels c = specLabels q (service q)"
    by (auto simp: container_def containerPath_def containerLabels_spec)
qed

theorem docker_labels_default_witness:
  "snd (MultiServiceECSFargateLoadBalancedConstruct ''us-east-1'' myMultiServiceProps) = None
   \<and> (\<exists>c. ([''payment-service-task-definition'', ''payment-service-container''],
            ContainerDefinition c)
            \<in> set (fst (MultiServiceECSFargateLoadBalancedConstruct ''us-east-1'' myMultiServiceProps))
          \<and> dockerLabels c ''cluster'' = Some ''my-app-cluster''
          \<and> dockerLabels c ''service'' = Some ''payment-service''
          \<and> dockerLabels c ''version'' = Some ''v1'')
   \<and> (\<exists>c. ([''auth-service-task-definition'', ''auth-service-container''],
            ContainerDefinition c)
            \<in> set (fst (MultiServiceECSFargateLoadBalancedConstruct ''us-east-1'' myMultiServiceProps))
          \<and> dockerLabels c ''cluster'' = None
          \<and> dockerLabels c ''service'' = Some ''auth-service'')
   \<and> (\<exists>c. ([''user-service-task-definition'', ''user-service-container''],
            ContainerDefinition c)
            \<in> set (fst (SingleServicePrivateECSFargateConstruct mySingleServiceProps))
          \<and> dockerLabels c ''cluster'' = None
          \<and> dockerLabels c ''service'' = Some ''user-service'')"
proof -
  have members: "paymentService \<in> set (ecsServices myMultiServiceProps)"
    "authService \<in> set (ecsServices myMultiServiceProps)"
    by (simp_all add: myMultiServiceProps_def)
  have payment: "specLabels myMultiServiceProps paymentService ''cluster'' = Some ''my-app-cluster''"
    "specLabels myMultiServiceProps paymentService ''service'' = Some ''payment-service''"
    "specLabels myMultiServiceProps paymentService ''version'' = Some ''v1''"
    "containerPath paymentService
       = [''payment-service-task-definition'', ''payment-service-container'']"
    by (simp_all add: specLabels_def containerPath_def paymentService_def myMultiServiceProps_def)
  have auth: "specLabels myMultiServiceProps authService ''cluster'' = None"
    "specLabels myMultiServiceProps authService ''service'' = Some ''auth-service''"
    "containerPath authService = [''auth-service-task-definition'', ''auth-service-container'']"
    by (simp_all add: specLabels_def containerPath_def authService_def)
  have user: "specLabels mySingleServiceProps (service mySingleServiceProps) ''cluster'' = None"
    "specLabels mySingleServiceProps (service mySingleServiceProps) ''service''
       = Some ''user-service''"
    "containerPath (service mySingleServiceProps)
       = [''user-service-task-definition'', ''user-service-container'']"
    by (simp_all add: specLabels_def containerPath_def userService_def mySingleServiceProps_def)
  note claim = docker_labels_default [of "''us-east-1''" myMultiServiceProps mySingleServiceProps]
  from claim example_multi_ok
  have multi: "\<forall>s \<in> set (ecsServices myMultiServiceProps). \<exists>c.
          (containerPath s, ContainerDefinition c)
            \<in> set (fst (MultiServiceECSFargateLoadBalancedConstruct ''us-east-1'' myMultiServiceProps))
          \<and> dockerLabels c = specLabels myMultiServiceProps s"
    by blast
  from multi members(1) payment
  have one: "\<exists>c. ([''payment-service-task-definition'', ''payment-service-container''],
            ContainerDefinition c)
            \<in> set (fst (MultiServiceECSFargateLoadBalancedConstruct ''us-east-1'' myMultiServiceProps))
          \<and> dockerLabels c ''cluster'' = Some ''my-app-cluster''
          \<and> dockerLabels c ''service'' = Some ''payment-service''
          \<and> dockerLabels c ''version'' = Some ''v1''"
    by (metis (no_types))
  from multi members(2) auth
  have two: "\<exists>c. ([''auth-service-task-definition'', ''auth-service-container''],
            ContainerDefinition c)
            \<in> set (fst (MultiServiceECSFargateLoadBalancedConstruct ''us-east-1'' myMultiServiceProps))
          \<and> dockerLabels c ''cluster'' = None
          \<and> dockerLabels c ''service'' = Some ''auth-service''"
    by (metis (no_types))
  from claim example_single_valid user
  have three: "\<exists>c. ([''user-service-task-definition'', ''user-service-container''],
            ContainerDefinition c)
            \<in> set (fst (SingleServicePrivateECSFargateConstruct mySingleServiceProps))
          \<and> dockerLabels c ''cluster'' = None
          \<and> dockerLabels c ''service'' = Some ''user-service''"
    by (metis (no_types))
  from example_multi_ok one two three show ?thesis by blast
qed

text \<open>
  C2 as it is stated does not hold. The service of the library's example with the
  health-check block \<open>{path: "/health", intervalSeconds: 10}\<close> validates, and its resolved
  health check has the interval 10 together with the built-in timeout 5, retries 3 and
  start period 30: the fields left out do inherit the built-in constants.
\<close>

theorem partial_block_counterexample:
  "ECSServiceConfigSchema [] intervalOnlyService = []
   \<and> timeoutSeconds (healthCheckConfig intervalOnlyService) = None
   \<and> retries (healthCheckConfig intervalOnlyService) = None
   \<and> startPeriodSeconds (healthCheckConfig intervalOnlyService) = None
   \<and> interval (resolvedHealthCheck intervalOnlyService) = 10
   \<and> timeout (resolvedHealthCheck intervalOnlyService) = 5
   \<and> retryCount (resolvedHealthCheck intervalOnlyService) = 3
   \<and> startPeriod (resolvedHealthCheck intervalOnlyService) = 30"
  by (simp add: schema_defs resolvedHealthCheck_def intervalOnlyService_def orNumber_def
        paymentService_def)

text \<open>
  C2, amended. For a service whose health-check block gives the path and an interval other
  than zero and leaves out timeout, retries and start period, the resolved health check
  has that interval, and the fields left out have the built-in constants 5, 3 and 30: the
  default is taken field by field.
\<close>

theorem partial_block_field_defaults:
  assumes "intervalSeconds (healthCheckConfig s) = Some i" and "i \<noteq> 0"
    and "timeoutSeconds (healthCheckConfig s) = None"
    and "retries (healthCheckConfig s) = None"
    and "startPeriodSeconds (healthCheckConfig s) = None"
  shows "interval (resolvedHealthCheck s) = i
     \<and> timeout (resolvedHealthCheck s) = 5
     \<and> retryCount (resolvedHealthCheck s) = 3
     \<and> startPeriod (resolvedHealthCheck s) = 30"
  using assms by (simp add: resolvedHealthCheck_def orNumber_def)

theorem partial_block_field_defaults_witness:
  "intervalSeconds (healthCheckConfig intervalOnlyService) = Some 10
   \<and> timeoutSeconds (healthCheckConfig intervalOnlyService) = None
   \<and> interval (resolvedHealthCheck intervalOnlyService) = 10
   \<and> timeout (resolvedHealthCheck intervalOnlyService) = 5
   \<and> retryCount (resolvedHealthCheck intervalOnlyService) = 3
   \<and> startPeriod (resolvedHealthCheck intervalOnlyService) = 30"
proof -
  have given: "intervalSeconds (healthCheckConfig intervalOnlyService) = Some 10"
    "timeoutSeconds (healthCheckConfig intervalOnlyService) = None"
    "retries (healthCheckConfig intervalOnlyService) = None"
    "startPeriodSeconds (healthCheckConfig intervalOnlyService) = None"
    by (simp_all add: intervalOnlyService_def)
  have nonzero: "(10::int) \<noteq> 0" by simp
  from partial_block_field_defaults [OF given(1) nonzero given(2-4)] given
  show ?thesis by simp
qed

text \<open>
  C3. An explicit value of a timing field should stand. The schema accepts a start period
  of zero seconds, and the resolved health check then has the built-in 30 instead: \<open>||\<close>
  takes the explicit zero for a missing value.
\<close>

theorem explicit_zero_start_period:
  "ECSServiceConfigSchema [] zeroStartPeriodService = []
   \<and> startPeriodSeconds (healthCheckConfig zeroStartPeriodService) = Some 0
   \<and> startPeriod (resolvedHealthCheck zeroStartPeriodService) = 30"
  by (simp add: schema_defs resolvedHealthCheck_def orNumber_def zeroStartPeriodService_def
        paymentService_def)

text \<open>
  C7. In a multi-service construct that was built, what hangs below a service is exactly:
  nothing when the service has no autoscaling block; otherwise the scalable target with
  the block's capacity bounds, followed by a CPU policy if and only if
  \<open>targetCpuUtilization\<close> is there and a memory policy if and only if
  \<open>targetMemoryUtilization\<close> is there, each with the block's target value.
\<close>

theorem autoscaling_policies:
  assumes "snd (MultiServiceECSFargateLoadBalancedConstruct region props) = None"
    and "s \<in> set (ecsServices props)"
  shows "below (serviceId props s) (fst (MultiServiceECSFargateLoadBalancedConstruct region props)) =
     (case autoScalingConfig s of
        None \<Rightarrow> []
      | Some a \<Rightarrow>
          ([serviceId props s, ''TaskCount''], ScalableTaskCount (minCapacity a) (maxCapacity a))
          # (case targetCpuUtilization a of
               None \<Rightarrow> []
             | Some n \<Rightarrow> [([serviceId props s, ''TaskCount'',
                            appName props @ ''-'' @ name s @ ''-cpu-scaling''],
                           CpuUtilizationScaling n)])
          @ (case targetMemoryUtilization a of
               None \<Rightarrow> []
             | Some n \<Rightarrow> [([serviceId props s, ''TaskCount'',
                            appName props @ ''-'' @ name s @ ''-memory-scaling''],
                           MemoryUtilizationScaling n)]))"
proof -
  from Multi_success(1) [OF assms(1)] assms(2) obtain p where valid: "ECSServiceConfigSchema p s = []"
    using Multi_valid_service by blast
  have "autoScaling props s =
     (case autoScalingConfig s of
        None \<Rightarrow> []
      | Some a \<Rightarrow>
          ([serviceId props s, ''TaskCount''], ScalableTaskCount (minCapacity a) (maxCapacity a))
          # (case targetCpuUtilization a of
               None \<Rightarrow> []
             | Some n \<Rightarrow> [([serviceId props s, ''TaskCount'',
                            appName props @ ''-'' @ name s @ ''-cpu-scaling''],
                           CpuUtilizationScaling n)])
          @ (case targetMemoryUtilization a of
               None \<Rightarrow> []
             | Some n \<Rightarrow> [([serviceId props s, ''TaskCount'',
                            appName props @ ''-'' @ name s @ ''-memory-scaling''],
                           MemoryUtilizationScaling n)]))"
  proof (cases "autoScalingConfig s")
    case None
    then show ?thesis by (simp add: autoScaling_def)
  next
    case (Some a)
    with valid_targets [OF valid Some] show ?thesis
      by (simp add: autoScaling_def ifNumber_def split: option.splits)
  qed
  with Multi_below_service [OF assms] show ?thesis by simp
qed

theorem autoscaling_policies_witness:
  "snd (MultiServiceECSFargateLoadBalancedConstruct ''us-east-1''
         (myMultiServiceProps\<lparr>ecsServices := [memoryOnlyService, paymentService]\<rparr>)) = None
   \<and> below ''my-app-auth-service-service''
         (fst (MultiServiceECSFargateLoadBalancedConstruct ''us-east-1''
           (myMultiServiceProps\<lparr>ecsServices := [memoryOnlyService, paymentService]\<rparr>)))
       = [([''my-app-auth-service-service'', ''TaskCount''], ScalableTaskCount 1 3),
          ([''my-app-auth-service-service'', ''TaskCount'', ''my-app-auth-service-memory-scaling''],
           MemoryUtilizationScaling 80)]
   \<and> below ''my-app-payment-service-service''
         (fst (MultiServiceECSFargateLoadBalancedConstruct ''us-east-1''
           (myMultiServiceProps\<lparr>ecsServices := [memoryOnlyService, paymentService]\<rparr>)))
       = []"
proof -
  let ?props = "myMultiServiceProps\<lparr>ecsServices := [memoryOnlyService, paymentService]\<rparr>"
  have members: "memoryOnlyService \<in> set (ecsServices ?props)"
    "paymentService \<in> set (ecsServices ?props)"
    by simp_all
  have ids: "serviceId ?props memoryOnlyService = ''my-app-auth-service-service''"
    "serviceId ?props paymentService = ''my-app-payment-service-service''"
    "appName ?props = ''my-app''" "name memoryOnlyService = ''auth-service''"
    by (simp_all add: serviceId_def myMultiServiceProps_def memoryOnlyService_def authService_def
          paymentService_def)
  have blocks: "autoScalingConfig memoryOnlyService =
      Some \<lparr>minCapacity = 1, maxCapacity = 3, targetCpuUtilization = None,
        targetMemoryUtilization = Some 80\<rparr>"
    "autoScalingConfig paymentService = None"
    by (simp_all add: memoryOnlyService_def paymentService_def)
  from autoscaling_policies [OF memory_only_ok members(1)] ids blocks
  have one: "below ''my-app-auth-service-service''
         (fst (MultiServiceECSFargateLoadBalancedConstruct ''us-east-1'' ?props))
       = [([''my-app-auth-service-service'', ''TaskCount''], ScalableTaskCount 1 3),
          ([''my-app-auth-service-service'', ''TaskCount'', ''my-app-auth-service-memory-scaling''],
           MemoryUtilizationScaling 80)]"
    by simp
  from autoscaling_policies [OF memory_only_ok members(2)] ids blocks
  have two: "below ''my-app-payment-service-service''
         (fst (MultiServiceECSFargateLoadBalancedConstruct ''us-east-1'' ?props)) = []"
    by simp
  from memory_only_ok one two show ?thesis by simp
qed

text \<open>
  C5. When two entries of \<open>ecsServices\<close> have the same name the constructor throws: the
  construct is rejected where it is built. The schema has no rule on names; the second
  service asks for a task definition under an id that the scope already holds.
\<close>

theorem duplicate_names_rejected:
  assumes "i < j" and "j < length (ecsServices props)"
    and "name (ecsServices props ! i) = name (ecsServices props ! j)"
  shows "\<exists>e. snd (MultiServiceECSFargateLoadBalancedConstruct region props) = Some e"
proof (rule ccontr)
  assume "\<not> ?thesis"
  then have "snd (MultiServiceECSFargateLoadBalancedConstruct region props) = None"
    by (cases "snd (MultiServiceECSFargateLoadBalancedConstruct region props)") simp_all
  then have "distinct (map name (ecsServices props))" by (rule Multi_names_distinct)
  with assms show False
    by (auto simp: distinct_conv_nth)
qed

theorem duplicate_names_rejected_witness:
  "MultiServiceECSFargateLoadBalancedConstructPropsSchema sameNameProps = []
   \<and> name (ecsServices sameNameProps ! 0) = name (ecsServices sameNameProps ! 1)
   \<and> (\<exists>e. snd (MultiServiceECSFargateLoadBalancedConstruct ''us-east-1'' sameNameProps) = Some e)"
proof -
  have valid: "MultiServiceECSFargateLoadBalancedConstructPropsSchema sameNameProps = []"
    unfolding sameNameProps_def myMultiServiceProps_shared_valid
    by (simp add: authService_valid) (simp add: schema_defs paymentService_def)
  have h: "(0::nat) < 1" "1 < length (ecsServices sameNameProps)"
    "name (ecsServices sameNameProps ! 0) = name (ecsServices sameNameProps ! 1)"
    by (simp_all add: sameNameProps_def authService_def)
  from valid h(3) duplicate_names_rejected [OF h, of "''us-east-1''"] show ?thesis by simp
qed



text \<open>
  C6. Equal listener priorities are not found where the construct is built. The schema
  raises the same issues whatever the priorities are. Among priorities of at least 1, the
  ones the load balancer's library takes, the constructor ends the same way when the
  priorities of the services are replaced by others, equal ones included. A construct
  that was built with such priorities holds the load balancer, below it the HTTPS
  listener on port 443 with the certificate and the 404 default, and below that listener
  the target group of every service, with the service's own priority on the rule.
\<close>

theorem priorities_not_validated:
  "MultiServiceECSFargateLoadBalancedConstructPropsSchema (withPriorities f props)
     = MultiServiceECSFargateLoadBalancedConstructPropsSchema props
   \<and> ((\<forall>s \<in> set (ecsServices props). 1 \<le> priority s \<and> 1 \<le> f s) \<longrightarrow>
        snd (MultiServiceECSFargateLoadBalancedConstruct region (withPriorities f props))
          = snd (MultiServiceECSFargateLoadBalancedConstruct region props))
   \<and> ((\<forall>s \<in> set (ecsServices props). 1 \<le> priority s)
        \<and> snd (MultiServiceECSFargateLoadBalancedConstruct region props) = None \<longrightarrow>
        (loadBalancerPath props,
         ApplicationLoadBalancer (appName props @ ''-'' @ tagEnv props @ ''-load-balancer'') True
           PUBLIC [(''name'', appName props @ ''-load-balancer'')])
          \<in> set (fst (MultiServiceECSFargateLoadBalancedConstruct region props))
        \<and> (httpsListenerPath props,
            ApplicationListener 443 True (FixedResponse 404 ''application/json'' notFoundBody))
          \<in> set (fst (MultiServiceECSFargateLoadBalancedConstruct region props))
        \<and> (\<forall>s \<in> set (ecsServices props). \<exists>t.
            (targetGroupPath props s, ApplicationTargetGroup t)
              \<in> set (fst (MultiServiceECSFargateLoadBalancedConstruct region props))
            \<and> rulePriority t = priority s))"
proof (intro conjI impI ballI)
  show "MultiServiceECSFargateLoadBalancedConstructPropsSchema (withPriorities f props)
     = MultiServiceECSFargateLoadBalancedConstructPropsSchema props"
    by (rule Schema_withPriorities)
next
  have services: "ecsServices (withPriorities f props)
      = map (\<lambda>s. s\<lparr>priority := f s\<rparr>) (ecsServices props)"
    by (simp add: withPriorities_def)
  have "map fst (sharedConstructs region (withPriorities f props)
          @ concat (map (ecsServiceConstructs (withPriorities f props))
              (ecsServices (withPriorities f props))))
      = map fst (sharedConstructs region props
          @ concat (map (ecsServiceConstructs props) (ecsServices props)))"
    unfolding services by (simp only: map_append shared_withPriorities paths_withPriorities)
  then have "snd (addAll (sharedConstructs region (withPriorities f props)
          @ concat (map (ecsServiceConstructs (withPriorities f props))
              (ecsServices (withPriorities f props)))) [])
      = snd (addAll (sharedConstructs region props
          @ concat (map (ecsServiceConstructs props) (ecsServices props))) [])"
    by (rule addAll_paths_only) simp
  then show "snd (MultiServiceECSFargateLoadBalancedConstruct region (withPriorities f props))
     = snd (MultiServiceECSFargateLoadBalancedConstruct region props)"
    by (simp add: Multi_addAll Schema_withPriorities)
next
  assume "(\<forall>s \<in> set (ecsServices props). 1 \<le> priority s)
        \<and> snd (MultiServiceECSFargateLoadBalancedConstruct region props) = None"
  then have "snd (MultiServiceECSFargateLoadBalancedConstruct region props) = None" ..
  from Multi_shared_nodes [OF this]
  show "(loadBalancerPath props,
         ApplicationLoadBalancer (appName props @ ''-'' @ tagEnv props @ ''-load-balancer'') True
           PUBLIC [(''name'', appName props @ ''-load-balancer'')])
          \<in> set (fst (MultiServiceECSFargateLoadBalancedConstruct region props))"
    by (simp add: sharedConstructs_def loadBalancerPath_def loadBalancerId_def)
next
  assume "(\<forall>s \<in> set (ecsServices props). 1 \<le> priority s)
        \<and> snd (MultiServiceECSFargateLoadBalancedConstruct region props) = None"
  then have "snd (MultiServiceECSFargateLoadBalancedConstruct region props) = None" ..
  from Multi_shared_nodes [OF this]
  show "(httpsListenerPath props,
            ApplicationListener 443 True (FixedResponse 404 ''application/json'' notFoundBody))
          \<in> set (fst (MultiServiceECSFargateLoadBalancedConstruct region props))"
    by (simp add: sharedConstructs_def httpsListenerPath_def loadBalancerPath_def
          loadBalancerId_def httpsListenerId_def)
next
  fix s
  assume "(\<forall>s \<in> set (ecsServices props). 1 \<le> priority s)
        \<and> snd (MultiServiceECSFargateLoadBalancedConstruct region props) = None"
  then have built: "snd (MultiServiceECSFargateLoadBalancedConstruct region props) = None" ..
  assume "s \<in> set (ecsServices props)"
  from Multi_targetGroup [OF built this]
  show "\<exists>t. (targetGroupPath props s, ApplicationTargetGroup t)
              \<in> set (fst (MultiServiceECSFargateLoadBalancedConstruct region props))
            \<and> rulePriority t = priority s"
    by (auto simp: targetGroup_def targetGroupPath_def httpsListenerPath_def
          loadBalancerPath_def loadBalancerId_def httpsListenerId_def)
qed

theorem priorities_not_validated_witness:
  "map priority (ecsServices myMultiServiceProps) = [1, 2]
   \<and> map priority (ecsServices (withPriorities (\<lambda>s. 1) myMultiServiceProps)) = [1, 1]
   \<and> MultiServiceECSFargateLoadBalancedConstructPropsSchema
         (withPriorities (\<lambda>s. 1) myMultiServiceProps) = []
   \<and> snd (MultiServiceECSFargateLoadBalancedConstruct ''us-east-1''
         (withPriorities (\<lambda>s. 1) myMultiServiceProps)) = None
   \<and> ([''my-app-dev-load-balancer'', ''my-app-https-listener''],
        ApplicationListener 443 True (FixedResponse 404 ''application/json'' notFoundBody))
       \<in> set (fst (MultiServiceECSFargateLoadBalancedConstruct ''us-east-1''
                  (withPriorities (\<lambda>s. 1) myMultiServiceProps)))
   \<and> (\<exists>t. ([''my-app-dev-load-balancer'', ''my-app-https-listener'', ''my-app-auth-service-tg''],
             ApplicationTargetGroup t)
            \<in> set (fst (MultiServiceECSFargateLoadBalancedConstruct ''us-east-1''
                  (withPriorities (\<lambda>s. 1) myMultiServiceProps)))
          \<and> rulePriority t = 1)
   \<and> (\<exists>t. ([''my-app-dev-load-balancer'', ''my-app-https-listener'', ''my-app-payment-service-tg''],
             ApplicationTargetGroup t)
            \<in> set (fst (MultiServiceECSFargateLoadBalancedConstruct ''us-east-1''
                  (withPriorities (\<lambda>s. 1) myMultiServiceProps)))
          \<and> rulePriority t = 1)"
proof -
  let ?shared = "withPriorities (\<lambda>s. 1) myMultiServiceProps"
  note first = priorities_not_validated [of "\<lambda>s. 1" myMultiServiceProps "''us-east-1''"]
  note second = priorities_not_validated [of priority ?shared "''us-east-1''"]
  have given: "map priority (ecsServices myMultiServiceProps) = [1, 2]"
    by (simp add: myMultiServiceProps_def authService_def paymentService_def)
  have services: "ecsServices ?shared = [authService\<lparr>priority := 1\<rparr>, paymentService\<lparr>priority := 1\<rparr>]"
    by (simp add: withPriorities_def myMultiServiceProps_def)
  have positive: "\<forall>s \<in> set (ecsServices myMultiServiceProps). 1 \<le> priority s \<and> (1::int) \<le> 1"
    by (simp add: myMultiServiceProps_def authService_def paymentService_def)
  have positive': "\<forall>s \<in> set (ecsServices ?shared). 1 \<le> priority s"
    by (simp add: services)
  from first example_multi_valid
  have valid: "MultiServiceECSFargateLoadBalancedConstructPropsSchema ?shared = []"
    by simp
  from first positive example_multi_ok
  have built: "snd (MultiServiceECSFargateLoadBalancedConstruct ''us-east-1'' ?shared) = None"
    by simp
  from second positive' built
  have listener: "(httpsListenerPath ?shared,
        ApplicationListener 443 True (FixedResponse 404 ''application/json'' notFoundBody))
       \<in> set (fst (MultiServiceECSFargateLoadBalancedConstruct ''us-east-1'' ?shared))"
    and groups: "\<forall>s \<in> set (ecsServices ?shared). \<exists>t.
            (targetGroupPath ?shared s, ApplicationTargetGroup t)
              \<in> set (fst (MultiServiceECSFargateLoadBalancedConstruct ''us-east-1'' ?shared))
            \<and> rulePriority t = priority s"
    by blast+
  have paths: "httpsListenerPath ?shared = [''my-app-dev-load-balancer'', ''my-app-https-listener'']"
    "targetGroupPath ?shared (authService\<lparr>priority := 1\<rparr>)
        = [''my-app-dev-load-balancer'', ''my-app-https-listener'', ''my-app-auth-service-tg'']"
    "targetGroupPath ?shared (paymentService\<lparr>priority := 1\<rparr>)
        = [''my-app-dev-load-balancer'', ''my-app-https-listener'', ''my-app-payment-service-tg'']"
    by (simp_all add: targetGroupPath_def httpsListenerPath_def loadBalancerPath_def
          withPriorities_def myMultiServiceProps_def authService_def paymentService_def)
  from groups services
  have "\<exists>t. (targetGroupPath ?shared (authService\<lparr>priority := 1\<rparr>), ApplicationTargetGroup t)
              \<in> set (fst (MultiServiceECSFargateLoadBalancedConstruct ''us-east-1'' ?shared))
            \<and> rulePriority t = priority (authService\<lparr>priority := 1\<rparr>)"
    and "\<exists>t. (targetGroupPath ?shared (paymentService\<lparr>priority := 1\<rparr>), ApplicationTargetGroup t)
              \<in> set (fst (MultiServiceECSFargateLoadBalancedConstruct ''us-east-1'' ?shared))
            \<and> rulePriority t = priority (paymentService\<lparr>priority := 1\<rparr>)"
    by simp_all
  with paths have both:
    "\<exists>t. ([''my-app-dev-load-balancer'', ''my-app-https-listener'', ''my-app-auth-service-tg''],
             ApplicationTargetGroup t)
            \<in> set (fst (MultiServiceECSFargateLoadBalancedConstruct ''us-east-1'' ?shared))
          \<and> rulePriority t = 1"
    "\<exists>t. ([''my-app-dev-load-balancer'', ''my-app-https-listener'', ''my-app-payment-service-tg''],
             ApplicationTargetGroup t)
            \<in> set (fst (MultiServiceECSFargateLoadBalancedConstruct ''us-east-1'' ?shared))
          \<and> rulePriority t = 1"
    by simp_all
  from listener paths
  have listener': "([''my-app-dev-load-balancer'', ''my-app-https-listener''],
        ApplicationListener 443 True (FixedResponse 404 ''application/json'' notFoundBody))
       \<in> set (fst (MultiServiceECSFargateLoadBalancedConstruct ''us-east-1'' ?shared))"
    by simp
  have "map priority (ecsServices ?shared) = [1, 1]"
    by (simp add: services)
  with given valid built listener' both show ?thesis by blast
qed

end
